theory Spec2Isabelle
  imports Main "HOL-Library.Word"
begin

unbundle bit_operations_syntax

section \<open>Machine types of \<^verbatim>\<open>accel/kvm/kvm-all.c\<close>\<close>

text \<open>
  \<^verbatim>\<open>hwaddr\<close>, \<^verbatim>\<open>uint64_t\<close> and \<^verbatim>\<open>unsigned long\<close> are 64-bit words,
  \<^verbatim>\<open>uint32_t\<close> is a 32-bit word. Return codes of type \<^verbatim>\<open>int\<close> are kept as
  integers: the code only compares them with zero and with errno values.
\<close>

type_synonym u64 = "64 word"
type_synonym u32 = "32 word"

definition ENOENT :: int where "ENOENT = 2"

section \<open>Address alignment helper\<close>

text \<open>
  \<^verbatim>\<open>ROUND_UP(n, d)\<close> and \<^verbatim>\<open>qemu_real_host_page_mask()\<close> come from QEMU's
  \<^verbatim>\<open>osdep.h\<close>; the host page size \<^verbatim>\<open>qemu_real_host_page_size()\<close> is a run-time value
  and is a parameter \<open>psize\<close> of every function that reads it.
  \<^verbatim>\<open>ROUND_UP(n, d)\<close> is \<^verbatim>\<open>(((n) + (d) - 1) & -(d))\<close> and the page mask is
  \<^verbatim>\<open>-(intptr_t)qemu_real_host_page_size()\<close>, both in 64-bit arithmetic.
\<close>

definition ROUND_UP :: "u64 \<Rightarrow> u64 \<Rightarrow> u64" where
  "ROUND_UP n d = (n + d - 1) AND (- d)"

definition qemu_real_host_page_mask :: "u64 \<Rightarrow> u64" where
  "qemu_real_host_page_mask psize = - psize"

text \<open>
  The fields of \<^verbatim>\<open>MemoryRegionSection\<close> that the slot code reads. \<open>sec_size\<close> is
  \<^verbatim>\<open>int128_get64(section->size)\<close>, the section's length as a 64-bit value.
\<close>

record MemoryRegionSection =
  offset_within_address_space :: u64
  offset_within_region :: u64
  sec_size :: u64

text \<open>
  \<^verbatim>\<open>kvm_align_section\<close> returns the size and stores the aligned start through its
  second argument; the model returns the pair \<open>(start, size)\<close>.
\<close>

definition kvm_align_section :: "u64 \<Rightarrow> MemoryRegionSection \<Rightarrow> u64 \<times> u64" where
  "kvm_align_section psize section =
     (let size = sec_size section;
          aligned = ROUND_UP (offset_within_address_space section) psize;
          delta = aligned - offset_within_address_space section
      in if delta > size then (aligned, 0)
         else (aligned, (size - delta) AND qemu_real_host_page_mask psize))"

text \<open>Rounding on natural numbers, to state what the word arithmetic computes.\<close>

definition round_up_nat :: "nat \<Rightarrow> nat \<Rightarrow> nat" where
  "round_up_nat n p = ((n + p - 1) div p) * p"

definition round_down_nat :: "nat \<Rightarrow> nat \<Rightarrow> nat" where
  "round_down_nat n p = (n div p) * p"

section \<open>Memory slots\<close>

text \<open>
  \<^verbatim>\<open>KVMSlot\<close> with the fields of \<^verbatim>\<open>kvm_int.h\<close>. A pointer is its address; the dirty
  bitmap is \<open>None\<close> when the pointer is \<^verbatim>\<open>NULL\<close> and otherwise the list of its bits, bit
  \<open>i\<close> of the \<^verbatim>\<open>unsigned long\<close> array at position \<open>i\<close>. The slot index and the
  address-space id are non-negative C \<^verbatim>\<open>int\<close>s (array indices), kept as naturals.
\<close>

type_synonym bitmap = "bool list"

record KVMSlot =
  start_addr :: u64
  memory_size :: u64
  ram :: u64
  slot :: nat
  flags :: u32
  old_flags :: u32
  dirty_bmap :: "bitmap option"
  dirty_bmap_size :: u64
  as_id :: nat
  ram_start_offset :: u64

text \<open>
  A memory listener: its slot array (of \<^verbatim>\<open>s->nr_slots\<close> entries) and address-space id.
\<close>

record KVMMemoryListener =
  slots :: "KVMSlot list"
  kml_as_id :: nat

definition KVM_MEM_LOG_DIRTY_PAGES :: u32 where "KVM_MEM_LOG_DIRTY_PAGES = 1"
definition KVM_MEM_READONLY :: u32 where "KVM_MEM_READONLY = 2"

definition HYPERUPCALL_MAX_N_MEMSLOTS :: nat where "HYPERUPCALL_MAX_N_MEMSLOTS = 128"

text \<open>The argument of the \<^verbatim>\<open>KVM_SET_USER_MEMORY_REGION\<close> ioctl.\<close>

record kvm_userspace_memory_region =
  region_slot :: u32
  region_flags :: u32
  guest_phys_addr :: u64
  region_memory_size :: u64
  userspace_addr :: u64

text \<open>
  The local \<^verbatim>\<open>mem\<close> of \<^verbatim>\<open>kvm_set_user_memory_region\<close>, filled from the slot, with
  \<^verbatim>\<open>mem.memory_size\<close> set to \<open>sz\<close>.
\<close>

definition slot_region :: "nat \<Rightarrow> KVMSlot \<Rightarrow> u64 \<Rightarrow> kvm_userspace_memory_region" where
  "slot_region asid sl sz =
     \<lparr>region_slot = of_nat (slot sl) OR push_bit 16 (of_nat asid),
      region_flags = flags sl,
      guest_phys_addr = start_addr sl,
      region_memory_size = sz,
      userspace_addr = ram sl\<rparr>"

text \<open>
  \<^verbatim>\<open>kvm_set_user_memory_region(kml, slot, new)\<close>. The kernel is the function \<open>ioctl\<close>
  from the request to the ioctl's return value. The result holds the return value, the slot
  (its \<^verbatim>\<open>old_flags\<close> updated), the requests issued in order, and the static
  \<^verbatim>\<open>used_memslots\<close>, which the function raises to the slot index after a successful update
  of a slot below \<^verbatim>\<open>HYPERUPCALL_MAX_N_MEMSLOTS\<close>. \<open>set_region_finish\<close> is the code from
  the label \<^verbatim>\<open>err\<close> on.
\<close>

record set_region_result =
  sr_ret :: int
  sr_slot :: KVMSlot
  sr_calls :: "kvm_userspace_memory_region list"
  sr_used_memslots :: nat

definition set_region_finish ::
  "int \<Rightarrow> KVMSlot \<Rightarrow> kvm_userspace_memory_region list \<Rightarrow> nat \<Rightarrow> set_region_result" where
  "set_region_finish ret sl calls used_memslots =
     (if ret < 0 then
        \<lparr>sr_ret = ret, sr_slot = sl, sr_calls = calls, sr_used_memslots = used_memslots\<rparr>
      else if slot sl \<ge> HYPERUPCALL_MAX_N_MEMSLOTS then
        \<lparr>sr_ret = ret, sr_slot = sl, sr_calls = calls, sr_used_memslots = used_memslots\<rparr>
      else
        \<lparr>sr_ret = ret, sr_slot = sl, sr_calls = calls,
         sr_used_memslots = (if used_memslots < slot sl then slot sl else used_memslots)\<rparr>)"

definition kvm_set_user_memory_region ::
  "(kvm_userspace_memory_region \<Rightarrow> int) \<Rightarrow> nat \<Rightarrow> KVMSlot \<Rightarrow> bool \<Rightarrow> nat \<Rightarrow>
   set_region_result" where
  "kvm_set_user_memory_region ioctl asid sl new used_memslots =
     (if memory_size sl \<noteq> 0 \<and> \<not> new
         \<and> (flags sl XOR old_flags sl) AND KVM_MEM_READONLY \<noteq> 0
      then
        (let ret = ioctl (slot_region asid sl 0) in
         if ret < 0 then
           set_region_finish ret sl [slot_region asid sl 0] used_memslots
         else
           (let ret = ioctl (slot_region asid sl (memory_size sl)) in
            set_region_finish ret (sl\<lparr>old_flags := flags sl\<rparr>)
              [slot_region asid sl 0, slot_region asid sl (memory_size sl)]
              used_memslots))
      else
        (let ret = ioctl (slot_region asid sl (memory_size sl)) in
         set_region_finish ret (sl\<lparr>old_flags := flags sl\<rparr>)
           [slot_region asid sl (memory_size sl)] used_memslots))"

text \<open>
  The condition the specification gives for the two-step update: the slot has shrunk to
  size zero and its flags differ from the previous flags in the read-only bit only.
\<close>

definition shrinks_to_zero_readonly_only :: "KVMSlot \<Rightarrow> bool" where
  "shrinks_to_zero_readonly_only sl \<longleftrightarrow>
     memory_size sl = 0 \<and> flags sl XOR old_flags sl = KVM_MEM_READONLY"

text \<open>
  For evaluating the update: a kernel that accepts every request, a deleted read-only slot
  and a live one.
\<close>

definition region_accepted :: "kvm_userspace_memory_region \<Rightarrow> int" where
  "region_accepted region = 0"

definition deleted_readonly_slot :: KVMSlot where
  "deleted_readonly_slot =
     \<lparr>start_addr = 0x100000, memory_size = 0, ram = 0x7f0000000000, slot = 3, flags = 0,
      old_flags = 2, dirty_bmap = None, dirty_bmap_size = 0, as_id = 0,
      ram_start_offset = 0\<rparr>"

definition live_readonly_slot :: KVMSlot where
  "live_readonly_slot =
     \<lparr>start_addr = 0x100000, memory_size = 0x1000, ram = 0x7f0000000000, slot = 3, flags = 3,
      old_flags = 0, dirty_bmap = None, dirty_bmap_size = 0, as_id = 0,
      ram_start_offset = 0\<rparr>"

section \<open>Registering memory slots\<close>

text \<open>
  The statics that mirror the memory slots of address space 0 for the export:
  \<^verbatim>\<open>used_memslots\<close> and the \<^verbatim>\<open>memslot_*_local\<close> arrays of
  \<^verbatim>\<open>HYPERUPCALL_MAX_N_MEMSLOTS\<close> entries.
\<close>

record memslot_mirror =
  used_memslots :: nat
  memslot_base_gfns_local :: "u64 list"
  memslot_npages_local :: "u64 list"
  memslot_userptrs_local :: "u64 list"
  memslot_as_id :: "nat list"

text \<open>\<^verbatim>\<open>kvm_get_free_slot\<close>: the index of the first slot of size 0.\<close>

fun free_slot_from :: "KVMSlot list \<Rightarrow> nat \<Rightarrow> nat option" where
  "free_slot_from [] i = None"
| "free_slot_from (mem # rest) i =
     (if memory_size mem = 0 then Some i else free_slot_from rest (Suc i))"

definition kvm_get_free_slot :: "KVMMemoryListener \<Rightarrow> nat option" where
  "kvm_get_free_slot kml = free_slot_from (slots kml) 0"

text \<open>
  \<^verbatim>\<open>kvm_slot_init_dirty_bitmap\<close>, with \<^verbatim>\<open>ALIGN(x, y)\<close> as the file defines it:
  \<^verbatim>\<open>(((x)+(y)-1) & ~((y)-1))\<close>. The bitmap is allocated zeroed, \<open>bitmap_size\<close> bytes;
  \<^verbatim>\<open>g_malloc0\<close> of zero bytes is the null pointer.
\<close>

definition ALIGN :: "u64 \<Rightarrow> u64 \<Rightarrow> u64" where
  "ALIGN x y = (x + y - 1) AND NOT (y - 1)"

definition kvm_slot_init_dirty_bitmap :: "u64 \<Rightarrow> KVMSlot \<Rightarrow> KVMSlot" where
  "kvm_slot_init_dirty_bitmap psize mem =
     (if flags mem AND KVM_MEM_LOG_DIRTY_PAGES = 0 \<or> dirty_bmap mem \<noteq> None then mem
      else
        (let bitmap_size = ALIGN (memory_size mem div psize) 64 div 8
         in mem\<lparr>dirty_bmap := (if bitmap_size = 0 then None
                               else Some (replicate (unat bitmap_size * 8) False)),
                dirty_bmap_size := bitmap_size\<rparr>))"

text \<open>
  The loop of \<^verbatim>\<open>kvm_set_phys_mem\<close> that registers the new slots (the path taken for
  \<^verbatim>\<open>add\<close> true), from the aligned start and size, the RAM pointer and offset, and the
  flags \<open>fl\<close> that \<^verbatim>\<open>kvm_mem_flags(mr)\<close> gives. \<open>None\<close> is \<^verbatim>\<open>abort()\<close>: no free slot,
  or a failed slot update; it is also the loop that never ends, when
  \<^verbatim>\<open>kvm_max_slot_size\<close> is zero.
\<close>

definition mirror_slot ::
  "memslot_mirror \<Rightarrow> KVMSlot \<Rightarrow> nat \<Rightarrow> u64 \<Rightarrow> u64 \<Rightarrow> u64 \<Rightarrow> memslot_mirror" where
  "mirror_slot m mem kml_asid slot_size start ram_ptr =
     (if slot mem < HYPERUPCALL_MAX_N_MEMSLOTS \<and> as_id mem = 0 then
        m\<lparr>memslot_as_id := (memslot_as_id m)[slot mem := kml_asid],
          memslot_npages_local := (memslot_npages_local m)[slot mem := drop_bit 12 slot_size],
          memslot_base_gfns_local := (memslot_base_gfns_local m)[slot mem := drop_bit 12 start],
          memslot_userptrs_local := (memslot_userptrs_local m)[slot mem := ram_ptr]\<rparr>
      else m)"

function kvm_set_phys_mem_add ::
  "u64 \<Rightarrow> u64 \<Rightarrow> (kvm_userspace_memory_region \<Rightarrow> int) \<Rightarrow> u32 \<Rightarrow>
   KVMMemoryListener \<Rightarrow> memslot_mirror \<Rightarrow> u64 \<Rightarrow> u64 \<Rightarrow> u64 \<Rightarrow> u64 \<Rightarrow>
   (KVMMemoryListener \<times> memslot_mirror) option" where
  "kvm_set_phys_mem_add psize kvm_max_slot_size ioctl fl kml m start ram_ptr ram_off sz =
     (let slot_size = min kvm_max_slot_size sz in
      case kvm_get_free_slot kml of
        None \<Rightarrow> None
      | Some i \<Rightarrow>
          (let mem = kvm_slot_init_dirty_bitmap psize
                       ((slots kml ! i)\<lparr>as_id := kml_as_id kml, memory_size := slot_size,
                          start_addr := start, ram_start_offset := ram_off, ram := ram_ptr,
                          flags := fl\<rparr>);
               m1 = mirror_slot m mem (kml_as_id kml) slot_size start ram_ptr;
               res = kvm_set_user_memory_region ioctl (kml_as_id kml) mem True (used_memslots m1)
           in if sr_ret res \<noteq> 0 then None
              else if sz - slot_size = 0 then
                Some (kml\<lparr>slots := (slots kml)[i := sr_slot res]\<rparr>,
                      m1\<lparr>used_memslots := sr_used_memslots res\<rparr>)
              else if slot_size = 0 then None
              else kvm_set_phys_mem_add psize kvm_max_slot_size ioctl fl
                     (kml\<lparr>slots := (slots kml)[i := sr_slot res]\<rparr>)
                     (m1\<lparr>used_memslots := sr_used_memslots res\<rparr>)
                     (start + slot_size) (ram_ptr + slot_size) (ram_off + slot_size)
                     (sz - slot_size)))"
  by pat_completeness auto
termination
proof (relation "measure (\<lambda>(psize, mx, ioctl, fl, kml, m, start, ram_ptr, ram_off, sz). unat sz)")
  show "wf (measure (\<lambda>(psize, mx, ioctl, fl, kml, m, start, ram_ptr, ram_off, sz). unat sz))"
    by simp
next
  fix psize kvm_max_slot_size :: u64
    and ioctl :: "kvm_userspace_memory_region \<Rightarrow> int" and fl :: u32
    and kml kml' :: KVMMemoryListener and m m' :: memslot_mirror
    and start ram_ptr ram_off sz slot_size :: u64
  assume ss: "slot_size = min kvm_max_slot_size sz" and pos: "slot_size \<noteq> 0"
  from ss have le: "slot_size \<le> sz" by simp
  from pos have "0 < unat slot_size" by (simp add: unat_gt_0)
  moreover from le have "unat (sz - slot_size) = unat sz - unat slot_size" by (rule unat_sub)
  moreover from le have "unat slot_size \<le> unat sz" by (simp add: word_le_nat_alt)
  ultimately have "unat (sz - slot_size) < unat sz" by linarith
  then show "((psize, kvm_max_slot_size, ioctl, fl, kml', m', start + slot_size,
               ram_ptr + slot_size, ram_off + slot_size, sz - slot_size),
              (psize, kvm_max_slot_size, ioctl, fl, kml, m, start, ram_ptr, ram_off, sz))
             \<in> measure (\<lambda>(psize, mx, ioctl, fl, kml, m, start, ram_ptr, ram_off, sz). unat sz)"
    by simp
qed

declare kvm_set_phys_mem_add.simps [simp del]

section \<open>Dirty bitmap synchronisation\<close>

text \<open>
  The argument of the \<^verbatim>\<open>KVM_GET_DIRTY_LOG\<close> ioctl: the slot id and the user buffer. The
  kernel is a function from the request to the ioctl's return value and the contents of
  the buffer after the call.
\<close>

record kvm_dirty_log =
  dl_slot :: u32
  dl_dirty_bitmap :: "bitmap option"

definition slot_dirty_log :: "KVMSlot \<Rightarrow> kvm_dirty_log" where
  "slot_dirty_log sl =
     \<lparr>dl_slot = of_nat (slot sl) OR push_bit 16 (of_nat (as_id sl)),
      dl_dirty_bitmap = dirty_bmap sl\<rparr>"

text \<open>\<^verbatim>\<open>kvm_slot_get_dirty_log\<close>: true if the sync succeeded; \<^verbatim>\<open>-ENOENT\<close> counts as 0.\<close>

definition kvm_slot_get_dirty_log ::
  "(kvm_dirty_log \<Rightarrow> int \<times> bitmap option) \<Rightarrow> KVMSlot \<Rightarrow> bool \<times> KVMSlot" where
  "kvm_slot_get_dirty_log ioctl sl =
     (let (ret, buf) = ioctl (slot_dirty_log sl);
          ret = (if ret = - ENOENT then 0 else ret)
      in (ret = 0, sl\<lparr>dirty_bmap := buf\<rparr>))"

text \<open>
  \<^verbatim>\<open>kvm_slot_sync_dirty_pages\<close> hands the slot's bitmap to the memory core's
  \<^verbatim>\<open>cpu_physical_memory_set_dirty_lebitmap\<close>, which is outside these sources: it is the
  parameter \<open>merge\<close>, acting on a global dirty state of any type.
\<close>

definition kvm_slot_sync_dirty_pages ::
  "u64 \<Rightarrow> (bitmap option \<Rightarrow> u64 \<Rightarrow> u64 \<Rightarrow> 'g \<Rightarrow> 'g) \<Rightarrow> KVMSlot \<Rightarrow> 'g \<Rightarrow> 'g" where
  "kvm_slot_sync_dirty_pages psize merge sl g =
     merge (dirty_bmap sl) (ram_start_offset sl) (memory_size sl div psize) g"

text \<open>
  \<^verbatim>\<open>kvm_lookup_matching_slot\<close> scans the \<^verbatim>\<open>s->nr_slots\<close> entries of \<^verbatim>\<open>kml->slots\<close>,
  the whole array, and returns the first exact match; the model returns its index.
\<close>

fun lookup_from :: "KVMSlot list \<Rightarrow> nat \<Rightarrow> u64 \<Rightarrow> u64 \<Rightarrow> nat option" where
  "lookup_from [] i start sz = None"
| "lookup_from (mem # rest) i start sz =
     (if start = start_addr mem \<and> sz = memory_size mem then Some i
      else lookup_from rest (Suc i) start sz)"

definition kvm_lookup_matching_slot :: "KVMMemoryListener \<Rightarrow> u64 \<Rightarrow> u64 \<Rightarrow> nat option" where
  "kvm_lookup_matching_slot kml start sz = lookup_from (slots kml) 0 start sz"

text \<open>
  The two statements of the loop body of \<^verbatim>\<open>kvm_physical_sync_dirty_bitmap\<close> that act on
  the matching slot: fetch the dirty log and, if that is reported as a success, merge.
\<close>

definition sync_matching_slot ::
  "u64 \<Rightarrow> (kvm_dirty_log \<Rightarrow> int \<times> bitmap option) \<Rightarrow>
   (bitmap option \<Rightarrow> u64 \<Rightarrow> u64 \<Rightarrow> 'g \<Rightarrow> 'g) \<Rightarrow> KVMSlot \<Rightarrow> 'g \<Rightarrow> bool \<times> KVMSlot \<times> 'g" where
  "sync_matching_slot psize ioctl merge sl g =
     (let (ok, sl') = kvm_slot_get_dirty_log ioctl sl
      in if ok then (True, sl', kvm_slot_sync_dirty_pages psize merge sl' g)
         else (False, sl', g))"

text \<open>
  The loop of \<^verbatim>\<open>kvm_physical_sync_dirty_bitmap\<close>, from the aligned start and size. It
  returns at the first range without a matching slot. With \<^verbatim>\<open>kvm_max_slot_size\<close> zero
  and a matching slot the C loop never ends; that is the result \<open>None\<close>.
\<close>

function sync_dirty_loop ::
  "u64 \<Rightarrow> u64 \<Rightarrow> (kvm_dirty_log \<Rightarrow> int \<times> bitmap option) \<Rightarrow>
   (bitmap option \<Rightarrow> u64 \<Rightarrow> u64 \<Rightarrow> 'g \<Rightarrow> 'g) \<Rightarrow> u64 \<Rightarrow> u64 \<Rightarrow> KVMMemoryListener \<Rightarrow> 'g \<Rightarrow>
   (KVMMemoryListener \<times> 'g) option" where
  "sync_dirty_loop psize kvm_max_slot_size ioctl merge start sz kml g =
     (if sz = 0 then Some (kml, g)
      else
        (let slot_size = min kvm_max_slot_size sz in
         case kvm_lookup_matching_slot kml start slot_size of
           None \<Rightarrow> Some (kml, g)
         | Some i \<Rightarrow>
             (let (ok, sl', g') = sync_matching_slot psize ioctl merge (slots kml ! i) g
              in if slot_size = 0 then None
                 else sync_dirty_loop psize kvm_max_slot_size ioctl merge
                        (start + slot_size) (sz - slot_size)
                        (kml\<lparr>slots := (slots kml)[i := sl']\<rparr>) g')))"
  by pat_completeness auto
termination
proof (relation "measure (\<lambda>(psize, mx, ioctl, merge, start, sz, kml, g). unat sz)")
  show "wf (measure (\<lambda>(psize, mx, ioctl, merge, start, sz, kml, g). unat sz))" by simp
next
  fix psize kvm_max_slot_size :: u64
    and ioctl :: "kvm_dirty_log \<Rightarrow> int \<times> bitmap option"
    and merge :: "bitmap option \<Rightarrow> u64 \<Rightarrow> u64 \<Rightarrow> 'g \<Rightarrow> 'g"
    and start sz :: u64 and kml kml' :: KVMMemoryListener and g g' :: 'g
    and slot_size :: u64
  assume nz: "sz \<noteq> 0" and ss: "slot_size = min kvm_max_slot_size sz" and pos: "slot_size \<noteq> 0"
  from ss have le: "slot_size \<le> sz" by simp
  from pos have "0 < unat slot_size" by (simp add: unat_gt_0)
  moreover from le have "unat (sz - slot_size) = unat sz - unat slot_size" by (rule unat_sub)
  moreover from le have "unat slot_size \<le> unat sz" by (simp add: word_le_nat_alt)
  ultimately have "unat (sz - slot_size) < unat sz" by linarith
  then show "((psize, kvm_max_slot_size, ioctl, merge, start + slot_size, sz - slot_size,
               kml', g'),
              (psize, kvm_max_slot_size, ioctl, merge, start, sz, kml, g))
             \<in> measure (\<lambda>(psize, mx, ioctl, merge, start, sz, kml, g). unat sz)"
    by simp
qed

declare sync_dirty_loop.simps [simp del]

definition kvm_physical_sync_dirty_bitmap ::
  "u64 \<Rightarrow> u64 \<Rightarrow> (kvm_dirty_log \<Rightarrow> int \<times> bitmap option) \<Rightarrow>
   (bitmap option \<Rightarrow> u64 \<Rightarrow> u64 \<Rightarrow> 'g \<Rightarrow> 'g) \<Rightarrow> KVMMemoryListener \<Rightarrow> MemoryRegionSection \<Rightarrow> 'g \<Rightarrow>
   (KVMMemoryListener \<times> 'g) option" where
  "kvm_physical_sync_dirty_bitmap psize kvm_max_slot_size ioctl merge kml section g =
     (let (start, sz) = kvm_align_section psize section
      in sync_dirty_loop psize kvm_max_slot_size ioctl merge start sz kml g)"

text \<open>
  Modelled from the spec: \<^verbatim>\<open>cpu_physical_memory_set_dirty_lebitmap\<close> belongs to the memory
  core and is not among the sources. By the glossary the dirty bitmap has one bit per page,
  marking the pages written by the guest; merging it marks, in the global dirty state, the
  page of every set bit among the first \<open>pages\<close> bits. The global dirty state is the set of
  the RAM addresses of the dirty pages; \<open>start\<close> is the RAM address of the slot's first page.
\<close>

fun dirty_page_addrs :: "u64 \<Rightarrow> bitmap \<Rightarrow> nat \<Rightarrow> u64 \<Rightarrow> u64 set" where
  "dirty_page_addrs psize [] n a = {}"
| "dirty_page_addrs psize (b # bs) n a =
     (if n = 0 then {}
      else (if b then {a} else {}) \<union> dirty_page_addrs psize bs (n - 1) (a + psize))"

definition set_dirty_lebitmap :: "u64 \<Rightarrow> bitmap option \<Rightarrow> u64 \<Rightarrow> u64 \<Rightarrow> u64 set \<Rightarrow> u64 set" where
  "set_dirty_lebitmap psize bmap start pages g =
     (case bmap of None \<Rightarrow> g | Some bits \<Rightarrow> g \<union> dirty_page_addrs psize bits (unat pages) start)"

text \<open>
  A slot of two pages whose cached bitmap has the first page marked, and a kernel that has
  no dirty bitmap for any slot: it answers \<^verbatim>\<open>-ENOENT\<close> and leaves the buffer alone.
\<close>

definition stale_slot :: KVMSlot where
  "stale_slot =
     \<lparr>start_addr = 0, memory_size = 0x2000, ram = 0x7f0000000000, slot = 0, flags = 1,
      old_flags = 1, dirty_bmap = Some (True # replicate 63 False),
      dirty_bmap_size = 8, as_id = 0, ram_start_offset = 0x10000\<rparr>"

definition kernel_without_bitmap :: "kvm_dirty_log \<Rightarrow> int \<times> bitmap option" where
  "kernel_without_bitmap d = (- ENOENT, dl_dirty_bitmap d)"

definition kernel_faulting :: "kvm_dirty_log \<Rightarrow> int \<times> bitmap option" where
  "kernel_faulting d = (- 14, dl_dirty_bitmap d)"

definition two_page_section :: MemoryRegionSection where
  "two_page_section =
     \<lparr>offset_within_address_space = 0, offset_within_region = 0, sec_size = 0x2000\<rparr>"

section \<open>Clearing the dirty log\<close>

text \<open>
  Modelled from the spec: QEMU's bitmap helpers \<^verbatim>\<open>bitmap_new\<close>, \<^verbatim>\<open>bitmap_clear\<close> and
  \<^verbatim>\<open>bitmap_copy_with_src_offset\<close> (\<^verbatim>\<open>qemu/bitmap.h\<close>) are not among the sources. The
  clear operation ``builds a temporary padded bitmap copy, zeroes the padding'' and
  ``intersect-clears the authoritative bitmap over exactly the caller's original range'':
  \<open>bitmap_new n\<close> is a zeroed bitmap of \<open>n\<close> bits rounded up to whole 64-bit words,
  \<open>bitmap_clear bmap start nr\<close> clears the \<open>nr\<close> bits from \<open>start\<close> on, and
  \<open>bitmap_copy_with_src_offset dst src offset nbits\<close> copies the \<open>nbits\<close> bits of \<open>src\<close>
  from \<open>offset\<close> on to the start of \<open>dst\<close>. A bitmap is the list of its bits; the callers
  keep every index inside it.
\<close>

definition bitmap_new :: "nat \<Rightarrow> bitmap" where
  "bitmap_new nbits = replicate (((nbits + 63) div 64) * 64) False"

fun bitmap_clear :: "bitmap \<Rightarrow> nat \<Rightarrow> nat \<Rightarrow> bitmap" where
  "bitmap_clear [] start nr = []"
| "bitmap_clear (b # bs) start nr =
     (if start = 0 then (if nr = 0 then b # bs else False # bitmap_clear bs 0 (nr - 1))
      else b # bitmap_clear bs (start - 1) nr)"

definition bitmap_copy_with_src_offset :: "bitmap \<Rightarrow> bitmap \<Rightarrow> nat \<Rightarrow> nat \<Rightarrow> bitmap" where
  "bitmap_copy_with_src_offset dst src offset nbits =
     take nbits (drop offset src) @ drop nbits dst"

text \<open>
  Modelled from the spec: QEMU's bit helpers \<^verbatim>\<open>set_bit\<close>, \<^verbatim>\<open>clear_bit\<close> and
  \<^verbatim>\<open>find_first_zero_bit\<close> (\<^verbatim>\<open>qemu/bitops.h\<close>) are not among the sources. The used-GSI
  bitmap is ``a fixed-size "used" bitmap sized from the kernel-reported GSI count'', and
  allocation ``returns the lowest clear bit or an exhaustion error'':
  \<open>find_first_zero_bit bmap size\<close> is the index of the first clear bit among the first
  \<open>size\<close> bits, and \<open>size\<close> when there is none; \<open>bitmap_set_bit\<close> and \<open>bitmap_clear_bit\<close>
  are \<^verbatim>\<open>set_bit\<close> and \<^verbatim>\<open>clear_bit\<close>. The callers keep every index inside the bitmap.
\<close>

definition bitmap_set_bit :: "nat \<Rightarrow> bitmap \<Rightarrow> bitmap" where
  "bitmap_set_bit nr bmap = bmap[nr := True]"




definition DIV_ROUND_UP :: "u64 \<Rightarrow> u64 \<Rightarrow> u64" where
  "DIV_ROUND_UP n d = (n + d - 1) div d"

text \<open>The argument of the \<^verbatim>\<open>KVM_CLEAR_DIRTY_LOG\<close> ioctl; the kernel only reads the bitmap.\<close>

record kvm_clear_dirty_log =
  cl_slot :: u32
  cl_num_pages :: u32
  cl_first_page :: u64
  cl_dirty_bitmap :: bitmap

definition KVM_CLEAR_LOG_SHIFT :: nat where "KVM_CLEAR_LOG_SHIFT = 6"

definition KVM_CLEAR_LOG_ALIGN :: "u64 \<Rightarrow> u64" where
  "KVM_CLEAR_LOG_ALIGN psize = push_bit KVM_CLEAR_LOG_SHIFT psize"

definition KVM_CLEAR_LOG_MASK :: "u64 \<Rightarrow> u64" where
  "KVM_CLEAR_LOG_MASK psize = - KVM_CLEAR_LOG_ALIGN psize"

text \<open>
  \<^verbatim>\<open>kvm_log_clear_one_slot(mem, as_id, start, size)\<close>. A failed assertion is the result
  \<open>None\<close>. Otherwise the result is the return value, the slot with its cached bitmap
  updated, and the request sent to the kernel. In the fast path the request's bitmap is
  the slot's own, from the word of \<open>bmap_start\<close> on.
\<close>

definition kvm_log_clear_one_slot ::
  "u64 \<Rightarrow> (kvm_clear_dirty_log \<Rightarrow> int) \<Rightarrow> KVMSlot \<Rightarrow> nat \<Rightarrow> u64 \<Rightarrow> u64 \<Rightarrow>
   (int \<times> KVMSlot \<times> kvm_clear_dirty_log) option" where
  "kvm_log_clear_one_slot psize ioctl mem asid start sz =
     (let bmap_start0 = start AND KVM_CLEAR_LOG_MASK psize;
          start_delta0 = start - bmap_start0;
          bmap_start = bmap_start0 div psize;
          bmap_npages0 = push_bit KVM_CLEAR_LOG_SHIFT
                           (DIV_ROUND_UP (sz + start_delta0) (KVM_CLEAR_LOG_ALIGN psize));
          end_page = memory_size mem div psize;
          bmap_npages = (if bmap_npages0 > end_page - bmap_start
                         then end_page - bmap_start else bmap_npages0);
          start_delta = start_delta0 div psize
      in if bmap_start mod 64 \<noteq> 0 then None
         else
           (case dirty_bmap mem of
              None \<Rightarrow> None
            | Some bmap \<Rightarrow>
                (let bits =
                       (if start_delta \<noteq> 0 \<or> bmap_npages - sz div psize \<noteq> 0
                        then bitmap_clear
                               (bitmap_copy_with_src_offset (bitmap_new (unat bmap_npages)) bmap
                                  (unat bmap_start) (unat (start_delta + sz div psize)))
                               0 (unat start_delta)
                        else drop (unat (bmap_start div 64) * 64) bmap)
                 in if bmap_npages > 0xffffffff then None
                    else
                      (let d = \<lparr>cl_slot = of_nat (slot mem) OR push_bit 16 (of_nat asid),
                                cl_num_pages = ucast bmap_npages,
                                cl_first_page = bmap_start,
                                cl_dirty_bitmap = bits\<rparr>;
                           ret0 = ioctl d;
                           ret = (if ret0 < 0 \<and> ret0 \<noteq> - ENOENT then ret0 else 0)
                       in Some (ret,
                                mem\<lparr>dirty_bmap := Some (bitmap_clear bmap
                                       (unat (bmap_start + start_delta)) (unat (sz div psize)))\<rparr>,
                                d)))))"

text \<open>
  A slot of 64 pages of 4 KiB whose cached bitmap has every page marked, for evaluating
  clear requests.
\<close>

definition dirty_slot :: KVMSlot where
  "dirty_slot =
     \<lparr>start_addr = 0, memory_size = 0x40000, ram = 0x7f0000000000, slot = 0, flags = 1,
      old_flags = 1, dirty_bmap = Some (replicate 64 True), dirty_bmap_size = 8, as_id = 0,
      ram_start_offset = 0\<rparr>"

definition clear_accepted :: "kvm_clear_dirty_log \<Rightarrow> int" where
  "clear_accepted d = 0"

section \<open>Accelerator and vCPU state\<close>

text \<open>
  A route of the GSI routing table, \<^verbatim>\<open>struct kvm_irq_routing_entry\<close>. The union \<^verbatim>\<open>u\<close>
  is a datatype with one constructor per route type the code builds.
\<close>

datatype route_payload =
    Irqchip u32 u32
  | Msi u32 u32 u32 u32
  | Adapter u64 u64 u64 u32 u32
  | HvSint u32 u32
  | NoPayload

record kvm_irq_routing_entry =
  gsi :: u32
  rtype :: u32
  rflags :: u32
  u :: route_payload

text \<open>
  The fields of \<^verbatim>\<open>KVMState\<close> that the modelled functions read. \<open>as_ml\<close> holds
  \<^verbatim>\<open>s->as[i].ml\<close>, \<open>None\<close> for a null pointer. \<open>irq_routes\<close> holds the
  \<^verbatim>\<open>s->irq_routes->nr\<close> live entries of \<^verbatim>\<open>s->irq_routes->entries\<close>; the allocated
  capacity is \<open>nr_allocated_irq_routes\<close>. \<open>msi_hashtab\<close> holds, per bucket, the
  \<^verbatim>\<open>kroute\<close> of each cached MSI route in queue order.
\<close>

record KVMState =
  nr_as :: nat
  as_ml :: "KVMMemoryListener option list"
  kvm_dirty_ring_size :: u32
  irq_routes :: "kvm_irq_routing_entry list"
  nr_allocated_irq_routes :: nat
  used_gsi_bitmap :: bitmap
  gsi_count :: nat
  msi_hashtab :: "kvm_irq_routing_entry list list"

text \<open>
  An entry of the dirty ring shared with the kernel, and the fields of \<^verbatim>\<open>CPUState\<close> read
  by the run loop and by the dirty-ring reaper. \<open>kvm_dirty_gfns\<close> is the mapped ring, \<open>None\<close>
  for a null pointer.
\<close>

record kvm_dirty_gfn =
  gfn_flags :: u32
  gfn_slot :: u32
  gfn_offset :: u64

record CPUState =
  cpu_index :: nat
  vcpu_dirty :: bool
  exit_request :: bool
  kvm_dirty_gfns :: "kvm_dirty_gfn list option"
  kvm_fetch_index :: u32
  dirty_pages :: u64

section \<open>Dirty ring\<close>

definition KVM_DIRTY_GFN_F_DIRTY :: u32 where "KVM_DIRTY_GFN_F_DIRTY = 1"
definition KVM_DIRTY_GFN_F_RESET :: u32 where "KVM_DIRTY_GFN_F_RESET = 2"

text \<open>
  \<^verbatim>\<open>kvm_dirty_ring_mark_page\<close>. The C code indexes \<^verbatim>\<open>s->as\<close>, \<^verbatim>\<open>kml->slots\<close> and the
  slot's bitmap without a bounds or null check of its own; an access outside the array, or
  through a null pointer, is the result \<open>None\<close>.
\<close>

definition kvm_dirty_ring_mark_page ::
  "u64 \<Rightarrow> KVMState \<Rightarrow> u32 \<Rightarrow> u32 \<Rightarrow> u64 \<Rightarrow> KVMState option" where
  "kvm_dirty_ring_mark_page psize s asid slot_id offset =
     (if unat asid \<ge> nr_as s then Some s
      else if unat asid \<ge> length (as_ml s) then None
      else
        (case as_ml s ! unat asid of
           None \<Rightarrow> None
         | Some kml \<Rightarrow>
             if unat slot_id \<ge> length (slots kml) then None
             else
               (let mem = slots kml ! unat slot_id in
                if memory_size mem = 0 \<or> offset \<ge> memory_size mem div psize then Some s
                else
                  (case dirty_bmap mem of
                     None \<Rightarrow> None
                   | Some bmap \<Rightarrow>
                       if unat offset \<ge> length bmap then None
                       else Some (s\<lparr>as_ml := (as_ml s)[unat asid :=
                              Some (kml\<lparr>slots := (slots kml)[unat slot_id :=
                                mem\<lparr>dirty_bmap := Some (bitmap_set_bit (unat offset) bmap)\<rparr>]\<rparr>)]\<rparr>)))))"

definition dirty_gfn_is_dirtied :: "kvm_dirty_gfn \<Rightarrow> bool" where
  "dirty_gfn_is_dirtied g \<longleftrightarrow> gfn_flags g = KVM_DIRTY_GFN_F_DIRTY"

definition dirty_gfn_set_collected :: "kvm_dirty_gfn \<Rightarrow> kvm_dirty_gfn" where
  "dirty_gfn_set_collected g = g\<lparr>gfn_flags := KVM_DIRTY_GFN_F_RESET\<rparr>"

text \<open>
  The \<^verbatim>\<open>while (true)\<close> loop of \<^verbatim>\<open>kvm_dirty_ring_reap_one\<close>, on the ring, the fetch index
  and the count. Every pass turns one dirty entry among the first \<open>ring_size\<close> into a
  collected one, so the number of those entries is the measure of termination.
\<close>

definition dirty_in_ring :: "u32 \<Rightarrow> kvm_dirty_gfn list \<Rightarrow> nat" where
  "dirty_in_ring ring_size ring = length (filter dirty_gfn_is_dirtied (take (unat ring_size) ring))"

lemma dirty_in_ring_collect:
  assumes "i < length ring" and "i < unat ring_size" and "dirty_gfn_is_dirtied (ring ! i)"
  shows "Suc (dirty_in_ring ring_size (ring[i := dirty_gfn_set_collected (ring ! i)]))
           = dirty_in_ring ring_size ring"
proof -
  let ?P = dirty_gfn_is_dirtied
  have nc: "\<not> ?P (dirty_gfn_set_collected (ring ! i))"
    by (simp add: dirty_gfn_is_dirtied_def dirty_gfn_set_collected_def
          KVM_DIRTY_GFN_F_DIRTY_def KVM_DIRTY_GFN_F_RESET_def)
  have gen: "\<And>xs v. i < length xs \<Longrightarrow> ?P (xs ! i) \<Longrightarrow> \<not> ?P v \<Longrightarrow>
               Suc (length (filter ?P (xs[i := v]))) = length (filter ?P xs)"
  proof -
    fix xs :: "kvm_dirty_gfn list" and v
    assume a: "i < length xs" "?P (xs ! i)" "\<not> ?P v"
    have xs: "xs = take i xs @ xs ! i # drop (Suc i) xs" using a(1) by (rule id_take_nth_drop)
    have up: "xs[i := v] = take i xs @ v # drop (Suc i) xs" using a(1) by (rule upd_conv_take_nth_drop)
    have "length (filter ?P xs) = length (filter ?P (take i xs @ xs ! i # drop (Suc i) xs))"
      using xs by simp
    then show "Suc (length (filter ?P (xs[i := v]))) = length (filter ?P xs)"
      using a(2,3) by (simp add: up)
  qed
  have ti: "i < length (take (unat ring_size) ring)" using assms(1,2) by simp
  have "take (unat ring_size) (ring[i := dirty_gfn_set_collected (ring ! i)])
          = (take (unat ring_size) ring)[i := dirty_gfn_set_collected (ring ! i)]"
    by (simp add: take_update_swap assms(2))
  moreover have "?P (take (unat ring_size) ring ! i)" using assms by simp
  ultimately show ?thesis
    unfolding dirty_in_ring_def using gen [OF ti _ nc] by simp
qed

function reap_loop ::
  "u64 \<Rightarrow> u32 \<Rightarrow> KVMState \<Rightarrow> kvm_dirty_gfn list \<Rightarrow> u32 \<Rightarrow> u32 \<Rightarrow>
   (KVMState \<times> kvm_dirty_gfn list \<times> u32 \<times> u32) option" where
  "reap_loop psize ring_size s ring fetch count =
     (if ring_size = 0 \<or> unat fetch mod unat ring_size \<ge> length ring then None
      else if \<not> dirty_gfn_is_dirtied (ring ! (unat fetch mod unat ring_size))
      then Some (s, ring, fetch, count)
      else
        (case kvm_dirty_ring_mark_page psize s
                (drop_bit 16 (gfn_slot (ring ! (unat fetch mod unat ring_size))))
                (gfn_slot (ring ! (unat fetch mod unat ring_size)) AND 0xffff)
                (gfn_offset (ring ! (unat fetch mod unat ring_size))) of
           None \<Rightarrow> None
         | Some s' \<Rightarrow>
             reap_loop psize ring_size s'
               (ring[unat fetch mod unat ring_size :=
                  dirty_gfn_set_collected (ring ! (unat fetch mod unat ring_size))])
               (fetch + 1) (count + 1)))"
  by pat_completeness auto
termination
proof (relation "measure (\<lambda>(psize, ring_size, s, ring, fetch, count). dirty_in_ring ring_size ring)")
  show "wf (measure (\<lambda>(psize, ring_size, s, ring, fetch, count). dirty_in_ring ring_size ring))"
    by simp
next
  fix psize :: u64 and ring_size :: u32 and s s' :: KVMState
    and ring :: "kvm_dirty_gfn list" and fetch count :: u32
  assume a: "\<not> (ring_size = 0 \<or> length ring \<le> unat fetch mod unat ring_size)"
     and d: "\<not> \<not> dirty_gfn_is_dirtied (ring ! (unat fetch mod unat ring_size))"
  from a have i: "unat fetch mod unat ring_size < length ring" by simp
  from a have "0 < unat ring_size" by (simp add: unat_gt_0)
  then have j: "unat fetch mod unat ring_size < unat ring_size" by simp
  from d have d': "dirty_gfn_is_dirtied (ring ! (unat fetch mod unat ring_size))" by simp
  show "((psize, ring_size, s',
          ring[unat fetch mod unat ring_size :=
            dirty_gfn_set_collected (ring ! (unat fetch mod unat ring_size))],
          fetch + 1, count + 1),
         (psize, ring_size, s, ring, fetch, count))
        \<in> measure (\<lambda>(psize, ring_size, s, ring, fetch, count). dirty_in_ring ring_size ring)"
    using dirty_in_ring_collect [OF i j d'] by simp
qed

text \<open>
  \<^verbatim>\<open>kvm_dirty_ring_reap_one\<close>. The assertion \<^verbatim>\<open>assert(dirty_gfns && ring_size)\<close> fails
  for a null ring or a ring size of zero: the result is \<open>None\<close>, as it is for an invalid
  memory access. Otherwise the result is the new accelerator state, the new CPU state and
  the count of entries collected.
\<close>

definition kvm_dirty_ring_reap_one ::
  "u64 \<Rightarrow> KVMState \<Rightarrow> CPUState \<Rightarrow> (KVMState \<times> CPUState \<times> u32) option" where
  "kvm_dirty_ring_reap_one psize s cpu =
     (case kvm_dirty_gfns cpu of
        None \<Rightarrow> None
      | Some dirty_gfns \<Rightarrow>
          if kvm_dirty_ring_size s = 0 then None
          else
            (case reap_loop psize (kvm_dirty_ring_size s) s dirty_gfns (kvm_fetch_index cpu) 0 of
               None \<Rightarrow> None
             | Some (s', ring', fetch, count) \<Rightarrow>
                 Some (s',
                       cpu\<lparr>kvm_dirty_gfns := Some ring', kvm_fetch_index := fetch,
                           dirty_pages := dirty_pages cpu + ucast count\<rparr>,
                       count)))"

declare reap_loop.simps [simp del]

text \<open>
  A ring of four entries whose first two are dirty (pages 1 and 3 of slot 0 in address
  space 0), a slot of four pages with a clear bitmap, and a vCPU that has fetched nothing.
\<close>

definition ring_slot :: KVMSlot where
  "ring_slot =
     \<lparr>start_addr = 0, memory_size = 0x4000, ram = 0x7f0000000000, slot = 0, flags = 1,
      old_flags = 1, dirty_bmap = Some (replicate 64 False), dirty_bmap_size = 8, as_id = 0,
      ram_start_offset = 0\<rparr>"

definition ring_state :: KVMState where
  "ring_state =
     \<lparr>nr_as = 1, as_ml = [Some \<lparr>slots = [ring_slot], kml_as_id = 0\<rparr>],
      kvm_dirty_ring_size = 4, irq_routes = [], nr_allocated_irq_routes = 0,
      used_gsi_bitmap = [], gsi_count = 0, msi_hashtab = []\<rparr>"

definition ring_cpu :: CPUState where
  "ring_cpu =
     \<lparr>cpu_index = 0, vcpu_dirty = False, exit_request = False,
      kvm_dirty_gfns = Some [\<lparr>gfn_flags = 1, gfn_slot = 0, gfn_offset = 1\<rparr>,
                             \<lparr>gfn_flags = 1, gfn_slot = 0, gfn_offset = 3\<rparr>,
                             \<lparr>gfn_flags = 0, gfn_slot = 0, gfn_offset = 0\<rparr>,
                             \<lparr>gfn_flags = 0, gfn_slot = 0, gfn_offset = 0\<rparr>],
      kvm_fetch_index = 0, dirty_pages = 0\<rparr>"

section \<open>Interrupt routing\<close>




































section \<open>The vCPU run loop\<close>


















section \<open>The extension registry\<close>

definition MAX_NUM_HYPERUPCALL_OBJS :: nat where "MAX_NUM_HYPERUPCALL_OBJS = 16"
definition HYPERUPCALL_N_PROGRAM_SLOTS :: nat where "HYPERUPCALL_N_PROGRAM_SLOTS = 8"
definition HYPERUPCALL_N_MAP_SLOTS :: nat where "HYPERUPCALL_N_MAP_SLOTS = 8"

definition HYPERUPCALL_MAJORID_XDP :: u64 where "HYPERUPCALL_MAJORID_XDP = 0"
definition HYPERUPCALL_MAJORID_PAGEFAULT :: u64 where "HYPERUPCALL_MAJORID_PAGEFAULT = 1"
definition HYPERUPCALL_MAJORID_TC_EGRESS :: u64 where "HYPERUPCALL_MAJORID_TC_EGRESS = 2"
definition HYPERUPCALL_MAJORID_DIRECT_EXE :: u64 where "HYPERUPCALL_MAJORID_DIRECT_EXE = 3"
definition HYPERUPCALL_MAJORID_TC_INGRESS :: u64 where "HYPERUPCALL_MAJORID_TC_INGRESS = 4"
definition HYPERUPCALL_MAJORID_PROFILING :: u64 where "HYPERUPCALL_MAJORID_PROFILING = 5"

text \<open>
  \<^verbatim>\<open>struct HyperUpCall\<close>. The libbpf objects, programs, links and maps are opaque handles
  (numbers); a null pointer is \<open>None\<close>. \<^verbatim>\<open>struct bpf_tc_hook\<close> keeps the fields the code
  sets: its size field, the interface index and the attach point.
\<close>

datatype bpf_tc_attach_point = BPF_TC_INGRESS | BPF_TC_EGRESS

record bpf_tc_hook =
  hook_sz :: nat
  hook_ifindex :: int
  hook_attach_point :: "bpf_tc_attach_point option"

record HyperUpCall =
  obj :: "nat option"
  links :: "nat option list"
  hooks :: "bpf_tc_hook list"
  progs :: "nat option list"
  major_ids :: "int list"
  minor_ids :: "int list"
  mmaped_map_ptrs :: "nat option list"
  maps :: "nat option list"

text \<open>
  The state of the registry: the pool \<^verbatim>\<open>hyperupcalls\<close>, the mirror, and the contents of
  the array maps of the loaded objects as the host sees them through \<^verbatim>\<open>mmap\<close>:
  \<open>bpf_maps ob name\<close> is the array of the map \<open>name\<close> of object \<open>ob\<close>, and \<open>None\<close> when the
  object has no such map, the map has no file descriptor or the mapping fails.
\<close>

record registry =
  hyperupcalls :: "HyperUpCall list"
  mirror :: memslot_mirror
  bpf_maps :: "nat \<Rightarrow> string \<Rightarrow> u64 list option"

text \<open>
  What libbpf, the kernel and the guest answer during a link request:
  \<open>read_guest_name\<close> is \<^verbatim>\<open>address_space_read\<close> of the program name (\<open>None\<close> for a
  fault), the other fields are the libbpf and perf calls of \<^verbatim>\<open>link_hyperupcall\<close>, with
  \<open>None\<close> for a null result and the C \<^verbatim>\<open>int\<close> otherwise.
\<close>

record bpf_env =
  read_guest_name :: "u64 \<Rightarrow> string option"
  find_program_by_name :: "nat \<Rightarrow> string \<Rightarrow> nat option"
  guest_netindex_to_ifindex :: "u64 \<Rightarrow> int"
  attach_xdp :: "nat \<Rightarrow> int \<Rightarrow> nat option"
  attach_kprobe :: "nat \<Rightarrow> string \<Rightarrow> nat option"
  tc_hook_create :: "bpf_tc_hook \<Rightarrow> int"
  tc_attach :: "bpf_tc_hook \<Rightarrow> nat \<Rightarrow> int"
  set_perf_event :: "u64 \<Rightarrow> int"
  attach_perf_event :: "nat \<Rightarrow> int \<Rightarrow> nat option"
  perf_event_enable :: "int \<Rightarrow> int"

text \<open>
  \<^verbatim>\<open>allocate_hyperupcall_prog_slot(hyperupcall)\<close>: the first \<open>i\<close> with
  \<^verbatim>\<open>hyperupcalls->progs[i] == NULL\<close>, or \<open>-1\<close>. The loop reads the global array
  \<^verbatim>\<open>hyperupcalls\<close> through \<^verbatim>\<open>->\<close>, that is its element 0; the parameter is not used.
\<close>

fun first_free :: "nat option list \<Rightarrow> nat \<Rightarrow> int" where
  "first_free [] i = - 1"
| "first_free (h # hs) i = (if h = None then int i else first_free hs (Suc i))"

definition allocate_hyperupcall_prog_slot :: "HyperUpCall list \<Rightarrow> HyperUpCall \<Rightarrow> int" where
  "allocate_hyperupcall_prog_slot pool hyperupcall =
     first_free (take HYPERUPCALL_N_PROGRAM_SLOTS (progs (pool ! 0))) 0"

text \<open>
  \<^verbatim>\<open>export_memslots_hyperupcall(obj)\<close>: maps the three arrays of the object and copies
  the entries \<open>0, \<dots>, used_memslots - 1\<close> of the local arrays into them.
\<close>

fun export_loop :: "nat \<Rightarrow> u64 list \<Rightarrow> u64 list \<Rightarrow> u64 list" where
  "export_loop 0 local shared = shared"
| "export_loop (Suc i) local shared = (export_loop i local shared)[i := local ! i]"

definition export_memslots_hyperupcall :: "registry \<Rightarrow> nat \<Rightarrow> int \<times> registry" where
  "export_memslots_hyperupcall r ob =
     (case (bpf_maps r ob ''l0_memslots_base_gfns'', bpf_maps r ob ''l0_memslots_npages'',
            bpf_maps r ob ''l0_memslots_userspace_addr'') of
        (Some memslot_base_gfns, Some memslot_npages, Some memslot_userptrs) \<Rightarrow>
          (let n = used_memslots (mirror r) in
           (0, r\<lparr>bpf_maps := (bpf_maps r)(ob := (bpf_maps r ob)
                  (''l0_memslots_base_gfns'' :=
                     Some (export_loop n (memslot_base_gfns_local (mirror r)) memslot_base_gfns),
                   ''l0_memslots_npages'' :=
                     Some (export_loop n (memslot_npages_local (mirror r)) memslot_npages),
                   ''l0_memslots_userspace_addr'' :=
                     Some (export_loop n (memslot_userptrs_local (mirror r))
                             memslot_userptrs)))\<rparr>))
      | _ \<Rightarrow> (- 1, r))"

text \<open>
  The \<^verbatim>\<open>switch (major_id)\<close> of \<^verbatim>\<open>link_hyperupcall\<close>: \<open>None\<close> where the case returns
  \<open>-1\<close>, otherwise the link and the hook to store, and the registry, which the page-fault
  case with minor id 0 changes by the export (whose return value the code ignores).
\<close>

definition link_attach ::
  "bpf_env \<Rightarrow> registry \<Rightarrow> nat \<Rightarrow> nat \<Rightarrow> u64 \<Rightarrow> u64 \<Rightarrow> bpf_tc_hook \<Rightarrow>
   (nat option \<times> bpf_tc_hook \<times> registry) option" where
  "link_attach env r ob prog major_id minor_id tc_hook =
     (if major_id = HYPERUPCALL_MAJORID_XDP then
        (case attach_xdp env prog (guest_netindex_to_ifindex env minor_id) of
           None \<Rightarrow> None
         | Some l \<Rightarrow> Some (Some l, tc_hook, r))
      else if major_id = HYPERUPCALL_MAJORID_PAGEFAULT then
        (let (link, r') =
               (if minor_id = 0 then
                  (attach_kprobe env prog ''alloc_bypass'',
                   snd (export_memslots_hyperupcall r ob))
                else if minor_id = 1 then (attach_kprobe env prog ''update_mapping'', r)
                else (None, r))
         in case link of None \<Rightarrow> None | Some l \<Rightarrow> Some (Some l, tc_hook, r'))
      else if major_id = HYPERUPCALL_MAJORID_TC_INGRESS
              \<or> major_id = HYPERUPCALL_MAJORID_TC_EGRESS then
        (let hook = (if major_id = HYPERUPCALL_MAJORID_TC_INGRESS
                     then tc_hook\<lparr>hook_attach_point := Some BPF_TC_INGRESS\<rparr> else tc_hook)
         in if tc_hook_create env hook < 0 then None
            else if tc_attach env hook prog < 0 then None
            else Some (None, hook, r))
      else if major_id = HYPERUPCALL_MAJORID_DIRECT_EXE then
        (case (if minor_id = 0 then attach_kprobe env prog ''sched_direct_exe'' else None) of
           None \<Rightarrow> None
         | Some l \<Rightarrow> Some (Some l, tc_hook, r))
      else if major_id = HYPERUPCALL_MAJORID_PROFILING then
        (let perf_fd = set_perf_event env minor_id
         in if perf_fd < 0 then None
            else
              (case attach_perf_event env prog perf_fd of
                 None \<Rightarrow> None
               | Some l \<Rightarrow> if perf_event_enable env perf_fd < 0 then None
                           else Some (Some l, tc_hook, r)))
      else None)"

text \<open>
  \<^verbatim>\<open>link_hyperupcall\<close>. \<open>sizeof_tc_hook\<close> is \<^verbatim>\<open>sizeof(struct bpf_tc_hook)\<close>, which
  \<^verbatim>\<open>DECLARE_LIBBPF_OPTS\<close> stores in the hook's size field. \<^verbatim>\<open>major_id\<close> and
  \<^verbatim>\<open>minor_id\<close> are stored as C \<^verbatim>\<open>int\<close>s.
\<close>

definition sizeof_tc_hook :: nat where "sizeof_tc_hook = 24"

definition link_hyperupcall ::
  "bpf_env \<Rightarrow> registry \<Rightarrow> u32 \<Rightarrow> u64 \<Rightarrow> u64 \<Rightarrow> u64 \<Rightarrow> int \<times> registry" where
  "link_hyperupcall env r hyperupcall_slot guest_prog_name major_id minor_id =
     (let tc_hook = \<lparr>hook_sz = sizeof_tc_hook,
                     hook_ifindex = guest_netindex_to_ifindex env minor_id,
                     hook_attach_point = Some BPF_TC_EGRESS\<rparr>;
          h = unat hyperupcall_slot
      in if h \<ge> MAX_NUM_HYPERUPCALL_OBJS then (- 1, r)
         else
           (case obj (hyperupcalls r ! h) of
              None \<Rightarrow> (- 1, r)
            | Some ob \<Rightarrow>
                (case read_guest_name env guest_prog_name of
                   None \<Rightarrow> (- 1, r)
                 | Some prog_name \<Rightarrow>
                     (let program_slot =
                            allocate_hyperupcall_prog_slot (hyperupcalls r) (hyperupcalls r ! h)
                      in if program_slot < 0 then (- 1, r)
                         else
                           (case find_program_by_name env ob prog_name of
                              None \<Rightarrow> (- 1, r)
                            | Some prog \<Rightarrow>
                                (case link_attach env r ob prog major_id minor_id tc_hook of
                                   None \<Rightarrow>
                                     (- 1,
                                      if major_id = HYPERUPCALL_MAJORID_PAGEFAULT \<and> minor_id = 0
                                      then snd (export_memslots_hyperupcall r ob) else r)
                                 | Some (link, hook, r') \<Rightarrow>
                                     (let p = nat program_slot;
                                          hu = hyperupcalls r' ! h
                                      in (program_slot,
                                          r'\<lparr>hyperupcalls := (hyperupcalls r')[h :=
                                               hu\<lparr>links := (links hu)[p := link],
                                                  hooks := (hooks hu)[p := hook],
                                                  progs := (progs hu)[p := Some prog],
                                                  major_ids := (major_ids hu)[p := sint (ucast major_id :: u32)],
                                                  minor_ids := (minor_ids hu)[p := sint (ucast minor_id :: u32)]\<rparr>]\<rparr>))))))))"

text \<open>A slot of an extension object is in use when its handle is present.\<close>

definition prog_slot_in_use :: "HyperUpCall \<Rightarrow> nat \<Rightarrow> bool" where
  "prog_slot_in_use hu i \<longleftrightarrow> progs hu ! i \<noteq> None"

definition map_slot_in_use :: "HyperUpCall \<Rightarrow> nat \<Rightarrow> bool" where
  "map_slot_in_use hu i \<longleftrightarrow> maps hu ! i \<noteq> None"

text \<open>
  For evaluating link requests: an unused pool entry and a loaded one, a pool with two
  loaded objects, and an environment in which every read, lookup and attachment succeeds.
\<close>

definition empty_hyperupcall :: HyperUpCall where
  "empty_hyperupcall =
     \<lparr>obj = None, links = [None, None, None, None, None, None, None, None],
      hooks = replicate 8 \<lparr>hook_sz = 0, hook_ifindex = 0, hook_attach_point = None\<rparr>,
      progs = [None, None, None, None, None, None, None, None],
      major_ids = replicate 8 0, minor_ids = replicate 8 0,
      mmaped_map_ptrs = [None, None, None, None, None, None, None, None],
      maps = [None, None, None, None, None, None, None, None]\<rparr>"

definition loaded_hyperupcall :: "nat \<Rightarrow> HyperUpCall" where
  "loaded_hyperupcall ob = empty_hyperupcall\<lparr>obj := Some ob\<rparr>"

definition empty_mirror :: memslot_mirror where
  "empty_mirror =
     \<lparr>used_memslots = 0, memslot_base_gfns_local = replicate 128 0,
      memslot_npages_local = replicate 128 0, memslot_userptrs_local = replicate 128 0,
      memslot_as_id = replicate 128 0\<rparr>"

definition friendly_env :: bpf_env where
  "friendly_env =
     \<lparr>read_guest_name = (\<lambda>a. Some ''probe''),
      find_program_by_name = (\<lambda>ob name. Some (ob + 10)),
      guest_netindex_to_ifindex = (\<lambda>i. 3),
      attach_xdp = (\<lambda>prog ifindex. Some (prog + 1000)),
      attach_kprobe = (\<lambda>prog name. Some (prog + 2000)),
      tc_hook_create = (\<lambda>hook. 0),
      tc_attach = (\<lambda>hook prog. 0),
      set_perf_event = (\<lambda>freq. 5),
      attach_perf_event = (\<lambda>prog fd. Some (prog + 3000)),
      perf_event_enable = (\<lambda>fd. 0)\<rparr>"

definition two_objects :: registry where
  "two_objects =
     \<lparr>hyperupcalls =
        [loaded_hyperupcall 100, loaded_hyperupcall 101, empty_hyperupcall, empty_hyperupcall,
         empty_hyperupcall, empty_hyperupcall, empty_hyperupcall, empty_hyperupcall,
         empty_hyperupcall, empty_hyperupcall, empty_hyperupcall, empty_hyperupcall,
         empty_hyperupcall, empty_hyperupcall, empty_hyperupcall, empty_hyperupcall],
      mirror = empty_mirror,
      bpf_maps = (\<lambda>ob name. None)\<rparr>"

definition after_first_link :: registry where
  "after_first_link =
     snd (link_hyperupcall friendly_env two_objects 1 0x5000 HYPERUPCALL_MAJORID_XDP 0)"

text \<open>
  For evaluating the export: a listener of address space 0 with two free slots, the
  registration of one RAM region of 64 pages in it, and a registry whose object 100 has the
  three export arrays, filled with a marker value.
\<close>

definition free_slot :: "nat \<Rightarrow> KVMSlot" where
  "free_slot i =
     \<lparr>start_addr = 0, memory_size = 0, ram = 0, slot = i, flags = 0, old_flags = 0,
      dirty_bmap = None, dirty_bmap_size = 0, as_id = 0, ram_start_offset = 0\<rparr>"

definition boot_listener :: KVMMemoryListener where
  "boot_listener = \<lparr>slots = [free_slot 0, free_slot 1], kml_as_id = 0\<rparr>"

definition one_region :: "(KVMMemoryListener \<times> memslot_mirror) option" where
  "one_region =
     kvm_set_phys_mem_add 0x1000 (- 1) region_accepted 0 boot_listener empty_mirror
       0x100000 0x7f0000000000 0 0x40000"

definition export_arrays :: "nat \<Rightarrow> string \<Rightarrow> u64 list option" where
  "export_arrays ob name =
     (if ob = 100 \<and> (name = ''l0_memslots_base_gfns'' \<or> name = ''l0_memslots_npages''
                       \<or> name = ''l0_memslots_userspace_addr'')
      then Some (replicate 512 0xdead) else None)"

definition registry_after_boot :: registry where
  "registry_after_boot =
     \<lparr>hyperupcalls = hyperupcalls two_objects,
      mirror = (case one_region of Some (kml, m) \<Rightarrow> m | None \<Rightarrow> empty_mirror),
      bpf_maps = export_arrays\<rparr>"

section \<open>The hypercall dispatcher\<close>

text \<open>
  \<^verbatim>\<open>handle_hypercall\<close> switches on the opcode \<^verbatim>\<open>nr\<close>. The operations it forwards
  to change the registry and talk to libbpf and to the device model; the dispatcher itself
  only threads their result. They are the fields of \<open>hypercall_ops\<close>, each a state
  transformer returning the C \<^verbatim>\<open>int\<close>; \<open>mutex_lock\<close> is the result of
  \<^verbatim>\<open>pthread_mutex_lock(&hyperupcalls_lock)\<close> and \<open>backend_bh_cleanup\<close> is the deferred
  deletion of \<^verbatim>\<open>memory_backend_bh\<close> that runs before the switch.
\<close>

record 's hypercall_ops =
  backend_bh_cleanup :: "'s \<Rightarrow> 's"
  mutex_lock :: "'s \<Rightarrow> int"
  mutex_unlock :: "'s \<Rightarrow> 's"
  load_op :: "u64 \<Rightarrow> u64 \<Rightarrow> 's \<Rightarrow> int \<times> 's"
  unload_op :: "u64 \<Rightarrow> 's \<Rightarrow> int \<times> 's"
  link_op :: "u64 \<Rightarrow> u64 \<Rightarrow> u64 \<Rightarrow> u64 \<Rightarrow> 's \<Rightarrow> int \<times> 's"
  unlink_op :: "u64 \<Rightarrow> u64 \<Rightarrow> 's \<Rightarrow> int \<times> 's"
  map_op :: "u64 \<Rightarrow> u64 \<Rightarrow> 's \<Rightarrow> int \<times> 's"
  unmap_op :: "u64 \<Rightarrow> u64 \<Rightarrow> 's \<Rightarrow> int \<times> 's"
  vdpa_op :: "u64 \<Rightarrow> u64 \<Rightarrow> 's \<Rightarrow> int \<times> 's"

text \<open>\<^verbatim>\<open>hyperupcall_map_elem_get_set\<close>: the body is \<^verbatim>\<open>return -1;\<close>, the rest is commented out.\<close>

definition hyperupcall_map_elem_get_set :: "u64 \<Rightarrow> u64 \<Rightarrow> 's \<Rightarrow> int \<times> 's" where
  "hyperupcall_map_elem_get_set hyperupcall_slot usr_attr s = (- 1, s)"

text \<open>
  A case of the switch that takes the registry lock: a failed lock returns \<open>-1\<close> at once,
  otherwise the operation runs, the lock is released and the operation's result is \<^verbatim>\<open>ret\<close>.
\<close>

definition locked_case :: "'s hypercall_ops \<Rightarrow> ('s \<Rightarrow> int \<times> 's) \<Rightarrow> 's \<Rightarrow> int \<times> 's" where
  "locked_case ops f s =
     (if mutex_lock ops s \<noteq> 0 then (- 1, s)
      else (let (ret, s') = f s in (ret, mutex_unlock ops s')))"

definition handle_hypercall ::
  "'s hypercall_ops \<Rightarrow> u64 \<Rightarrow> u64 \<Rightarrow> u64 \<Rightarrow> u64 \<Rightarrow> u64 \<Rightarrow> 's \<Rightarrow> int \<times> 's" where
  "handle_hypercall ops nr a0 a1 a2 a3 s0 =
     (let s = backend_bh_cleanup ops s0 in
      if nr = 13 then locked_case ops (load_op ops a0 a1) s
      else if nr = 14 then locked_case ops (unload_op ops a0) s
      else if nr = 15 then locked_case ops (link_op ops a0 a1 a2 a3) s
      else if nr = 16 then locked_case ops (unlink_op ops a0 a1) s
      else if nr = 17 then locked_case ops (map_op ops a0 a1) s
      else if nr = 18 then locked_case ops (unmap_op ops a0 a1) s
      else if nr = 19 then locked_case ops (hyperupcall_map_elem_get_set a0 a1) s
      else if nr = 23 then (let (ret, s') = vdpa_op ops a0 a1 s in (0, s'))
      else (0, s))"

section \<open>Results\<close>

subsection \<open>C8: the range-alignment helper\<close>

text \<open>Masking with \<open>- 2 ^ k\<close> clears the low \<open>k\<close> bits: it rounds down to a multiple of \<open>2 ^ k\<close>.\<close>

lemma and_neg_pow_eq: "(x::u64) AND (- (2 ^ k)) = push_bit k (drop_bit k x)"
  by (rule bit_eqI) (auto simp add: minus_exp_eq_not_mask bit_simps)

lemma unat_push_drop: "unat (push_bit k (drop_bit k (x::u64))) = (unat x div 2 ^ k) * 2 ^ k"
proof -
  have le: "(unat x div 2 ^ k) * 2 ^ k \<le> unat x" by simp
  have lt: "unat x < 2 ^ 64" using unsigned_less [of x] by simp
  have "unat (push_bit k (drop_bit k x)) = take_bit 64 (push_bit k (drop_bit k (unat x)))"
    by (simp add: unsigned_push_bit_eq unat_drop_bit_eq)
  also have "\<dots> = take_bit 64 ((unat x div 2 ^ k) * 2 ^ k)"
    by (simp add: push_bit_eq_mult drop_bit_eq_div)
  also have "\<dots> = (unat x div 2 ^ k) * 2 ^ k"
    using le lt by (intro take_bit_nat_eq_self) linarith
  finally show ?thesis .
qed

lemma unat_and_neg_pow: "unat ((x::u64) AND (- (2 ^ k))) = round_down_nat (unat x) (2 ^ k)"
  by (simp only: and_neg_pow_eq unat_push_drop round_down_nat_def)


lemma round_up_nat_ge: "0 < p \<Longrightarrow> n \<le> round_up_nat n p"
proof -
  assume p: "0 < p"
  have "n + p - 1 = (n + p - 1) div p * p + (n + p - 1) mod p" by simp
  moreover have "(n + p - 1) mod p \<le> p - 1" using p by (simp add: Suc_leI less_Suc_eq_le [symmetric])
  ultimately show ?thesis unfolding round_up_nat_def using p by linarith
qed

lemma round_up_nat_lt: "0 < p \<Longrightarrow> round_up_nat n p - n < p"
proof -
  assume p: "0 < p"
  have "(n + p - 1) div p * p \<le> n + p - 1" by simp
  then show ?thesis unfolding round_up_nat_def using p by linarith
qed

lemma div_mod_pow: "k \<le> 64 \<Longrightarrow> ((n::nat) mod 2 ^ 64) div 2 ^ k * 2 ^ k = (n div 2 ^ k * 2 ^ k) mod 2 ^ 64"
proof -
  assume k: "k \<le> 64"
  have e: "(2::nat) ^ 64 = 2 ^ k * 2 ^ (64 - k)" using k by (simp flip: power_add)
  have "(n mod (2 ^ k * 2 ^ (64 - k))) div 2 ^ k = (n div 2 ^ k) mod 2 ^ (64 - k)"
    by (simp add: mod_mult2_eq)
  then have "(n mod 2 ^ 64) div 2 ^ k * 2 ^ k = ((n div 2 ^ k) mod 2 ^ (64 - k)) * 2 ^ k"
    by (simp only: e)
  also have "\<dots> = (n div 2 ^ k * 2 ^ k) mod (2 ^ (64 - k) * 2 ^ k)"
    by (simp only: mult_mod_left)
  also have "(2::nat) ^ (64 - k) * 2 ^ k = 2 ^ 64" using k by (simp flip: power_add)
  finally show ?thesis .
qed


lemma unat_two_pow: "k < 64 \<Longrightarrow> unat ((2::u64) ^ k) = 2 ^ k"
proof -
  assume k: "k < 64"
  have "(2::u64) ^ k = of_nat (2 ^ k)" by simp
  then have "unat ((2::u64) ^ k) = (2 ^ k) mod 2 ^ 64" by (simp only: unat_of_nat) simp
  moreover have "(2::nat) ^ k < 2 ^ 64" using k by (intro power_strict_increasing) simp_all
  ultimately show ?thesis by simp
qed

lemma ROUND_UP_unat:
  assumes k: "k < 64"
  shows "unat (ROUND_UP x (2 ^ k)) = round_up_nat (unat x) (2 ^ k) mod 2 ^ 64"
proof -
  have "unat x + 2 ^ k - 1 = unat x + (2 ^ k - 1)" by simp
  moreover have "(of_nat (2 ^ k - 1) :: u64) = 2 ^ k - 1" by (simp add: of_nat_diff)
  ultimately have "(of_nat (unat x + 2 ^ k - 1) :: u64) = of_nat (unat x) + (2 ^ k - 1)"
    by (simp only: of_nat_add)
  then have "x + 2 ^ k - 1 = (of_nat (unat x + 2 ^ k - 1) :: u64)" by simp
  then have "unat (x + 2 ^ k - 1) = (unat x + 2 ^ k - 1) mod 2 ^ 64"
    by (simp only: unat_of_nat) simp
  then have "unat (ROUND_UP x (2 ^ k)) = ((unat x + 2 ^ k - 1) mod 2 ^ 64) div 2 ^ k * 2 ^ k"
    by (simp add: ROUND_UP_def unat_and_neg_pow round_down_nat_def)
  also have "\<dots> = ((unat x + 2 ^ k - 1) div 2 ^ k * 2 ^ k) mod 2 ^ 64"
    using k by (intro div_mod_pow) simp
  finally show ?thesis by (simp add: round_up_nat_def)
qed

lemma ROUND_UP_delta:
  assumes k: "k < 64"
  shows "unat (ROUND_UP x (2 ^ k) - x) = round_up_nat (unat x) (2 ^ k) - unat x"
proof -
  let ?R = "round_up_nat (unat x) (2 ^ k)"
  have ge: "unat x \<le> ?R" by (rule round_up_nat_ge) simp
  have lt: "?R - unat x < 2 ^ k" by (rule round_up_nat_lt) simp
  have "(2::nat) ^ k < 2 ^ 64" using k by (intro power_strict_increasing) simp_all
  with lt have lt64: "?R - unat x < 2 ^ 64" by linarith
  have "ROUND_UP x (2 ^ k) = of_nat (unat (ROUND_UP x (2 ^ k)))" by simp
  also have "\<dots> = (of_nat (?R mod 2 ^ 64) :: u64)" by (simp only: ROUND_UP_unat [OF k])
  also have "\<dots> = of_nat ?R"
    by (simp add: word_unat_eq_iff unat_of_nat)
  finally have "ROUND_UP x (2 ^ k) - x = of_nat ?R - of_nat (unat x)" by simp
  also have "\<dots> = of_nat (?R - unat x)" using ge by simp
  finally have "unat (ROUND_UP x (2 ^ k) - x) = (?R - unat x) mod 2 ^ 64"
    by (simp only: unat_of_nat) simp
  then show ?thesis using lt64 by simp
qed


text \<open>
  C8. With a host page size \<open>2 ^ k\<close>, \<^verbatim>\<open>kvm_align_section\<close> returns as start the
  section's start rounded up to the page size (in 64-bit arithmetic, hence modulo \<open>2 ^ 64\<close>),
  and as size the length that remains after the rounding delta, truncated down to a multiple
  of the page size; the size is 0 when the delta exceeds the section's size. Both results are
  multiples of the page size.
\<close>

theorem kvm_align_section_page_rounding:
  assumes k: "k < 64"
      and r: "kvm_align_section (2 ^ k) section = (start, sz)"
  shows "unat start = round_up_nat (unat (offset_within_address_space section)) (2 ^ k) mod 2 ^ 64
       \<and> unat sz =
           (if unat (sec_size section) <
                 round_up_nat (unat (offset_within_address_space section)) (2 ^ k)
                   - unat (offset_within_address_space section)
            then 0
            else round_down_nat
                   (unat (sec_size section)
                     - (round_up_nat (unat (offset_within_address_space section)) (2 ^ k)
                         - unat (offset_within_address_space section))) (2 ^ k))
       \<and> 2 ^ k dvd unat start \<and> 2 ^ k dvd unat sz"
proof -
  let ?off = "offset_within_address_space section"
  let ?delta = "ROUND_UP ?off (2 ^ k) - ?off"
  let ?d = "round_up_nat (unat ?off) (2 ^ k) - unat ?off"
  have d: "unat ?delta = ?d" by (rule ROUND_UP_delta [OF k])
  have start: "start = ROUND_UP ?off (2 ^ k)"
    using r by (auto simp: kvm_align_section_def Let_def split: if_splits)
  have s1: "unat start = round_up_nat (unat ?off) (2 ^ k) mod 2 ^ 64"
    by (simp only: start ROUND_UP_unat [OF k])
  have s2: "unat sz = (if unat (sec_size section) < ?d then 0
                         else round_down_nat (unat (sec_size section) - ?d) (2 ^ k))"
  proof (cases "sec_size section < ?delta")
    case True
    then have "sz = 0" using r by (auto simp: kvm_align_section_def Let_def split: if_splits)
    moreover from True have "unat (sec_size section) < ?d" by (simp add: word_less_nat_alt d)
    ultimately show ?thesis by simp
  next
    case False
    then have le: "?delta \<le> sec_size section" by simp
    from False have "sz = (sec_size section - ?delta) AND - (2 ^ k)"
      using r by (auto simp: kvm_align_section_def qemu_real_host_page_mask_def Let_def split: if_splits)
    then have "unat sz = round_down_nat (unat (sec_size section - ?delta)) (2 ^ k)"
      by (simp only: unat_and_neg_pow)
    also have "unat (sec_size section - ?delta) = unat (sec_size section) - ?d"
      using le by (simp add: unat_sub d)
    finally show ?thesis using False by (simp add: word_less_nat_alt d)
  qed
  have a1: "2 ^ k dvd unat start"
    by (simp only: start ROUND_UP_def unat_and_neg_pow round_down_nat_def) simp
  have a2: "2 ^ k dvd unat sz"
    by (simp only: s2 round_down_nat_def) simp
  from s1 s2 a1 a2 show ?thesis by blast
qed

theorem kvm_align_section_page_rounding_witness:
  "(12::nat) < 64
   \<and> kvm_align_section (2 ^ 12)
        \<lparr>offset_within_address_space = 0x1234, offset_within_region = 0, sec_size = 0x3000\<rparr>
       = (0x2000, 0x2000)
   \<and> unat (0x2000 :: u64) = round_up_nat (unat (0x1234 :: u64)) (2 ^ 12) mod 2 ^ 64
   \<and> (2::nat) ^ 12 dvd unat (0x2000 :: u64)"
proof -
  have k: "(12::nat) < 64" by simp
  have r: "kvm_align_section (2 ^ 12)
        \<lparr>offset_within_address_space = 0x1234, offset_within_region = 0, sec_size = 0x3000\<rparr>
       = (0x2000, 0x2000)"
    by (simp add: kvm_align_section_def ROUND_UP_def qemu_real_host_page_mask_def Let_def)
  show ?thesis
    using k r kvm_align_section_page_rounding [OF k r] by simp
qed

subsection \<open>C5: when the slot update takes two steps\<close>

text \<open>
  C5, as the code has it. \<^verbatim>\<open>kvm_set_user_memory_region\<close> issues the size-0 request first
  exactly when the slot's size is not zero, the slot is not new and the read-only bit of
  its flags differs from the previous flags (other bits may differ as well); the request
  with the final size follows unless the first one failed. In every other case it issues the
  single request with the final state.
\<close>

theorem kvm_set_user_memory_region_calls:
  "sr_calls (kvm_set_user_memory_region ioctl a sl new um) =
     (if memory_size sl \<noteq> 0 \<and> \<not> new \<and> (flags sl XOR old_flags sl) AND KVM_MEM_READONLY \<noteq> 0
      then (if ioctl (slot_region a sl 0) < 0
            then [slot_region a sl 0]
            else [slot_region a sl 0, slot_region a sl (memory_size sl)])
      else [slot_region a sl (memory_size sl)])"
  by (simp add: kvm_set_user_memory_region_def set_region_finish_def Let_def)

theorem kvm_set_user_memory_region_calls_witness:
  "map region_memory_size
     (sr_calls (kvm_set_user_memory_region region_accepted 0 live_readonly_slot False 0)) = [0, 0x1000]
   \<and> map region_memory_size
     (sr_calls (kvm_set_user_memory_region region_accepted 0 live_readonly_slot True 0)) = [0x1000]"
  using kvm_set_user_memory_region_calls [of region_accepted 0 live_readonly_slot False 0]
        kvm_set_user_memory_region_calls [of region_accepted 0 live_readonly_slot True 0]
  by (simp add: live_readonly_slot_def slot_region_def KVM_MEM_READONLY_def region_accepted_def)

text \<open>
  The claim as stated fails in both directions: a slot that has shrunk to zero with only
  its read-only flag changed gets a single request, and a slot of non-zero size whose
  read-only and dirty-log flags both changed gets two.
\<close>

theorem two_step_condition_counterexample:
  "shrinks_to_zero_readonly_only deleted_readonly_slot
   \<and> length (sr_calls (kvm_set_user_memory_region region_accepted 0 deleted_readonly_slot False 0)) = 1
   \<and> \<not> shrinks_to_zero_readonly_only live_readonly_slot
   \<and> length (sr_calls (kvm_set_user_memory_region region_accepted 0 live_readonly_slot False 0)) = 2"
  by (simp add: shrinks_to_zero_readonly_only_def deleted_readonly_slot_def
        live_readonly_slot_def kvm_set_user_memory_region_def set_region_finish_def
        KVM_MEM_READONLY_def region_accepted_def Let_def)

subsection \<open>C9: the result of a dirty-log fetch\<close>

text \<open>
  C9, as the code has it. For every slot, kernel and merge function: when the dirty-log
  fetch returns 0 or \<^verbatim>\<open>-ENOENT\<close> the sync is reported as a success and the slot's bitmap
  buffer, as the ioctl left it, is merged into the global dirty state; for every other
  result of the fetch the sync is reported as failed and the global dirty state is
  unchanged.
\<close>

theorem sync_matching_slot_result:
  "sync_matching_slot psize ioctl merge sl g =
     (if fst (ioctl (slot_dirty_log sl)) = 0 \<or> fst (ioctl (slot_dirty_log sl)) = - ENOENT
      then (True, sl\<lparr>dirty_bmap := snd (ioctl (slot_dirty_log sl))\<rparr>,
            merge (snd (ioctl (slot_dirty_log sl))) (ram_start_offset sl)
                  (memory_size sl div psize) g)
      else (False, sl\<lparr>dirty_bmap := snd (ioctl (slot_dirty_log sl))\<rparr>, g))"
  by (auto simp: sync_matching_slot_def kvm_slot_get_dirty_log_def
        kvm_slot_sync_dirty_pages_def Let_def split: prod.splits)

lemma dirty_page_addrs_clear: "dirty_page_addrs psize (replicate n False) m a = {}"
  by (induction n arbitrary: m a) simp_all

theorem sync_matching_slot_result_witness:
  "sync_matching_slot 0x1000 kernel_faulting (set_dirty_lebitmap 0x1000) stale_slot {}
     = (False, stale_slot, {})
   \<and> sync_matching_slot 0x1000 kernel_without_bitmap (set_dirty_lebitmap 0x1000) stale_slot {}
     = (True, stale_slot, {0x10000})"
  using sync_matching_slot_result
          [of "0x1000" kernel_faulting "set_dirty_lebitmap 0x1000" stale_slot "{}"]
        sync_matching_slot_result
          [of "0x1000" kernel_without_bitmap "set_dirty_lebitmap 0x1000" stale_slot "{}"]
  by (simp add: kernel_faulting_def kernel_without_bitmap_def stale_slot_def
        slot_dirty_log_def set_dirty_lebitmap_def ENOENT_def dirty_page_addrs_clear)

text \<open>
  The claim as stated says that a fetch failing with \<^verbatim>\<open>-ENOENT\<close> merges no dirty page.
  A sync of the section that covers \<open>stale_slot\<close>, against a kernel answering
  \<^verbatim>\<open>-ENOENT\<close>, starts from an empty global dirty state and ends with the slot's first page
  marked in it.
\<close>

theorem enoent_sync_merges_counterexample:
  "fst (kernel_without_bitmap (slot_dirty_log stale_slot)) = - ENOENT
   \<and> kvm_physical_sync_dirty_bitmap 0x1000 (- 1) kernel_without_bitmap
        (set_dirty_lebitmap 0x1000) \<lparr>slots = [stale_slot], kml_as_id = 0\<rparr> two_page_section {}
       = Some (\<lparr>slots = [stale_slot], kml_as_id = 0\<rparr>, {0x10000})"
  by (simp add: kvm_physical_sync_dirty_bitmap_def kvm_align_section_def ROUND_UP_def
        qemu_real_host_page_mask_def two_page_section_def kvm_lookup_matching_slot_def
        sync_matching_slot_def kvm_slot_get_dirty_log_def kvm_slot_sync_dirty_pages_def
        kernel_without_bitmap_def stale_slot_def slot_dirty_log_def set_dirty_lebitmap_def
        ENOENT_def Let_def dirty_page_addrs_clear sync_dirty_loop.simps)

subsection \<open>C1: the bits cleared in the cached bitmap\<close>

lemma bitmap_clear_length [simp]: "length (bitmap_clear bm s n) = length bm"
  by (induction bm s n rule: bitmap_clear.induct) auto

lemma bitmap_clear_nth:
  "i < length bm \<Longrightarrow> bitmap_clear bm s n ! i = (if s \<le> i \<and> i < s + n then False else bm ! i)"
proof (induction bm s n arbitrary: i rule: bitmap_clear.induct)
  case (1 start nr)
  then show ?case by simp
next
  case (2 b bs start nr)
  show ?case
  proof (cases i)
    case 0
    then show ?thesis by auto
  next
    case (Suc j)
    with "2.prems" have j: "j < length bs" by simp
    show ?thesis
    proof (cases "start = 0")
      case True
      note s0 = this
      show ?thesis
      proof (cases "nr = 0")
        case True
        with s0 show ?thesis by simp
      next
        case False
        with s0 Suc "2.IH"(1) [OF s0 False j] show ?thesis by auto
      qed
    next
      case False
      with Suc "2.IH"(2) [OF False j] show ?thesis by auto
    qed
  qed
qed

lemma div_split_align:
  fixes n p :: nat
  assumes "0 < p"
  shows "(n div (64 * p)) * 64 + (n mod (64 * p)) div p = n div p"
proof -
  have "(n div (64 * p)) * 64 * p = (n div (64 * p)) * (64 * p)" by (simp only: mult.assoc)
  then have "(n div (64 * p)) * 64 * p + n mod (64 * p) = n" by (simp only: div_mult_mod_eq)
  then have "n div p = ((n div (64 * p)) * 64 * p + n mod (64 * p)) div p" by simp
  also have "\<dots> = (n div (64 * p)) * 64 + (n mod (64 * p)) div p"
    using assms by (simp only: div_mult_self3) 
  finally show ?thesis by simp
qed

lemma clear_log_align: "k < 58 \<Longrightarrow> KVM_CLEAR_LOG_ALIGN (2 ^ k) = 2 ^ (k + 6)"
  by (simp add: KVM_CLEAR_LOG_ALIGN_def KVM_CLEAR_LOG_SHIFT_def push_bit_eq_mult power_add)

lemma clear_log_pages:
  fixes start :: u64 and k :: nat
  assumes k: "k < 58"
  defines "b0 \<equiv> start AND KVM_CLEAR_LOG_MASK (2 ^ k)"
  shows "unat (b0 div 2 ^ k) = (unat start div (64 * 2 ^ k)) * 64"
    and "unat ((start - b0) div 2 ^ k) = (unat start mod (64 * 2 ^ k)) div 2 ^ k"
    and "unat (b0 div 2 ^ k + (start - b0) div 2 ^ k) = unat start div 2 ^ k"
proof -
  have k64: "k < 64" using k by simp
  have A: "(2::nat) ^ (k + 6) = 64 * 2 ^ k" by (simp add: power_add)
  have b0: "unat b0 = (unat start div (64 * 2 ^ k)) * (64 * 2 ^ k)"
    unfolding b0_def KVM_CLEAR_LOG_MASK_def clear_log_align [OF k]
    by (simp only: unat_and_neg_pow round_down_nat_def A)
  have p: "unat ((2::u64) ^ k) = 2 ^ k" by (rule unat_two_pow [OF k64])
  show 1: "unat (b0 div 2 ^ k) = (unat start div (64 * 2 ^ k)) * 64"
    by (simp add: unat_div p b0)
  have le: "b0 \<le> start" unfolding b0_def by (rule word_and_le2)
  have "unat (start - b0) = unat start - unat b0" using le by (rule unat_sub)
  also have "\<dots> = unat start mod (64 * 2 ^ k)"
    by (simp only: b0 minus_div_mult_eq_mod)
  finally have d0: "unat (start - b0) = unat start mod (64 * 2 ^ k)" .
  show 2: "unat ((start - b0) div 2 ^ k) = (unat start mod (64 * 2 ^ k)) div 2 ^ k"
    by (simp add: unat_div p d0)
  have sum: "unat (b0 div 2 ^ k) + unat ((start - b0) div 2 ^ k) = unat start div 2 ^ k"
    unfolding 1 2 by (rule div_split_align) simp
  have "unat start div 2 ^ k \<le> unat start" by simp
  also have "unat start < 2 ^ 64" using unsigned_less [of start] by simp
  finally have "unat (b0 div 2 ^ k) + unat ((start - b0) div 2 ^ k) < 2 ^ LENGTH(64)"
    using sum by simp
  then have "unat (b0 div 2 ^ k + (start - b0) div 2 ^ k)
               = unat (b0 div 2 ^ k) + unat ((start - b0) div 2 ^ k)"
    by (simp only: unat_add_lem)
  with sum show "unat (b0 div 2 ^ k + (start - b0) div 2 ^ k) = unat start div 2 ^ k" by simp
qed


text \<open>
  C1, as the code has it. For a page size \<open>2 ^ k\<close>, a slot with an allocated bitmap that
  covers its pages (and whose page count fits the 32-bit field of the ioctl) and a clear
  request \<open>(start, sz)\<close> inside the slot, \<^verbatim>\<open>kvm_log_clear_one_slot\<close> returns, and in the
  slot's cached bitmap exactly the bits \<open>start div 2 ^ k, \<dots>, start div 2 ^ k + sz div 2 ^ k - 1\<close>
  are cleared while every other bit keeps its value, whether or not the request is
  64-page aligned. For a page-aligned start this is the range
  \<open>[start div 2 ^ k, (start + sz) div 2 ^ k)\<close>.
\<close>

theorem kvm_log_clear_one_slot_frame:
  fixes start sz :: u64
  assumes k: "k < 58"
      and bm: "dirty_bmap mem = Some bm"
      and inside: "unat start + unat sz \<le> unat (memory_size mem)"
      and cover: "unat (memory_size mem) div 2 ^ k \<le> length bm"
      and fits: "unat (memory_size mem) div 2 ^ k < 2 ^ 32"
  shows "\<exists>ret d bm'.
           kvm_log_clear_one_slot (2 ^ k) ioctl mem asid start sz
             = Some (ret, mem\<lparr>dirty_bmap := Some bm'\<rparr>, d)
           \<and> length bm' = length bm
           \<and> (\<forall>i < length bm.
                 bm' ! i = (if unat start div 2 ^ k \<le> i
                               \<and> i < unat start div 2 ^ k + unat sz div 2 ^ k
                            then False else bm ! i))
           \<and> unat start div 2 ^ k + unat sz div 2 ^ k \<le> length bm
           \<and> (2 ^ k dvd unat start \<longrightarrow>
                 unat start div 2 ^ k + unat sz div 2 ^ k = (unat start + unat sz) div 2 ^ k)"
proof -
  let ?p = "(2::u64) ^ k"
  let ?b0 = "start AND KVM_CLEAR_LOG_MASK ?p"
  let ?bs = "?b0 div ?p"
  let ?sd = "(start - ?b0) div ?p"
  let ?e = "memory_size mem div ?p"
  let ?np0 = "push_bit KVM_CLEAR_LOG_SHIFT
                (DIV_ROUND_UP (sz + (start - ?b0)) (KVM_CLEAR_LOG_ALIGN ?p))"
  let ?np = "if ?e - ?bs < ?np0 then ?e - ?bs else ?np0"
  have k64: "k < 64" using k by simp
  have p: "unat ?p = 2 ^ k" by (rule unat_two_pow [OF k64])
  note pg = clear_log_pages [OF k, of start]
  have e: "unat ?e = unat (memory_size mem) div 2 ^ k" by (simp add: unat_div p)
  have szp: "unat (sz div ?p) = unat sz div 2 ^ k" by (simp add: unat_div p)
  have "unat (?bs mod 64) = 0" by (simp add: unat_mod pg(1))
  then have c1: "?bs mod 64 = 0" by (simp add: unat_eq_zero)
  have "unat ?bs + unat ?sd = unat start div 2 ^ k"
    unfolding pg(1) pg(2) by (rule div_split_align) simp
  then have "unat ?bs \<le> unat start div 2 ^ k" by linarith
  also have "\<dots> \<le> unat (memory_size mem) div 2 ^ k"
    using inside by (intro div_le_mono) simp
  finally have bse: "?bs \<le> ?e" by (simp add: word_le_nat_alt e)
  have "unat (?e - ?bs) \<le> unat ?e" using bse by (simp add: unat_sub)
  then have "unat (?e - ?bs) < 2 ^ 32" using fits e by simp
  moreover have "?np \<le> ?e - ?bs" by (simp add: not_less)
  ultimately have "unat ?np < 2 ^ 32" by (simp add: word_le_nat_alt del: if_split)
  then have c2: "\<not> 0xffffffff < ?np" by (simp add: word_less_nat_alt del: if_split)
  have range: "unat start div 2 ^ k + unat sz div 2 ^ k \<le> unat (memory_size mem) div 2 ^ k"
  proof -
    have "unat start div 2 ^ k + unat sz div 2 ^ k \<le> (unat start + unat sz) div 2 ^ k"
      using div_add1_eq [of "unat start" "unat sz" "2 ^ k"] by linarith
    also have "\<dots> \<le> unat (memory_size mem) div 2 ^ k" using inside by (rule div_le_mono)
    finally show ?thesis .
  qed
  have al: "2 ^ k dvd unat start \<longrightarrow>
        unat start div 2 ^ k + unat sz div 2 ^ k = (unat start + unat sz) div 2 ^ k"
    by (simp add: div_plus_div_distrib_dvd_left)
  let ?bm' = "bitmap_clear bm (unat (?bs + ?sd)) (unat (sz div ?p))"
  have res: "\<exists>ret d. kvm_log_clear_one_slot ?p ioctl mem asid start sz
               = Some (ret, mem\<lparr>dirty_bmap := Some ?bm'\<rparr>, d)"
    unfolding kvm_log_clear_one_slot_def Let_def
    by (simp only: c1 c2 bm option.case if_False simp_thms) simp
  have nth: "\<forall>i < length bm.
      ?bm' ! i = (if unat start div 2 ^ k \<le> i \<and> i < unat start div 2 ^ k + unat sz div 2 ^ k
                   then False else bm ! i)"
    by (simp add: bitmap_clear_nth pg(3) szp)
  from res obtain ret d where
    r: "kvm_log_clear_one_slot ?p ioctl mem asid start sz = Some (ret, mem\<lparr>dirty_bmap := Some ?bm'\<rparr>, d)"
    by (elim exE)
  show ?thesis
  proof (intro exI [of _ ret] exI [of _ d] exI [of _ ?bm'] conjI)
    show "kvm_log_clear_one_slot ?p ioctl mem asid start sz = Some (ret, mem\<lparr>dirty_bmap := Some ?bm'\<rparr>, d)"
      by (rule r)
    show "length ?bm' = length bm" by simp
    show "\<forall>i < length bm.
      ?bm' ! i = (if unat start div 2 ^ k \<le> i \<and> i < unat start div 2 ^ k + unat sz div 2 ^ k
                   then False else bm ! i)" by (rule nth)
    show "unat start div 2 ^ k + unat sz div 2 ^ k \<le> length bm" using range cover by linarith
    show "2 ^ k dvd unat start \<longrightarrow>
        unat start div 2 ^ k + unat sz div 2 ^ k = (unat start + unat sz) div 2 ^ k" by (rule al)
  qed
qed


lemma bitmap_clear_none: "bitmap_clear bm s 0 = bm"
  by (induction bm s "0::nat" rule: bitmap_clear.induct) auto

theorem kvm_log_clear_one_slot_frame_witness:
  "(12::nat) < 58
   \<and> dirty_bmap dirty_slot = Some (replicate 64 True)
   \<and> unat (0x3000 :: u64) + unat (0x2000 :: u64) \<le> unat (memory_size dirty_slot)
   \<and> unat (memory_size dirty_slot) div 2 ^ 12 \<le> length (replicate 64 True)
   \<and> unat (memory_size dirty_slot) div 2 ^ 12 < 2 ^ 32
   \<and> (\<exists>ret d bm'.
         kvm_log_clear_one_slot (2 ^ 12) clear_accepted dirty_slot 0 0x3000 0x2000
           = Some (ret, dirty_slot\<lparr>dirty_bmap := Some bm'\<rparr>, d)
         \<and> length bm' = 64 \<and> \<not> bm' ! 3 \<and> \<not> bm' ! 4 \<and> bm' ! 2 \<and> bm' ! 5)"
proof -
  have h1: "(12::nat) < 58" by simp
  have h2: "dirty_bmap dirty_slot = Some (replicate 64 True)" by (simp add: dirty_slot_def)
  have h3: "unat (0x3000 :: u64) + unat (0x2000 :: u64) \<le> unat (memory_size dirty_slot)"
    by (simp add: dirty_slot_def)
  have h4: "unat (memory_size dirty_slot) div 2 ^ 12 \<le> length (replicate 64 True)"
    by (simp add: dirty_slot_def)
  have h5: "unat (memory_size dirty_slot) div 2 ^ 12 < 2 ^ 32" by (simp add: dirty_slot_def)
  from kvm_log_clear_one_slot_frame [OF h1 h2 h3 h4 h5, of clear_accepted 0]
  obtain ret d bm' where
    r: "kvm_log_clear_one_slot (2 ^ 12) clear_accepted dirty_slot 0 0x3000 0x2000
          = Some (ret, dirty_slot\<lparr>dirty_bmap := Some bm'\<rparr>, d)"
    and l: "length bm' = length (replicate 64 True)"
    and n: "\<forall>i < length (replicate 64 True).
              bm' ! i = (if unat (0x3000 :: u64) div 2 ^ 12 \<le> i
                            \<and> i < unat (0x3000 :: u64) div 2 ^ 12 + unat (0x2000 :: u64) div 2 ^ 12
                         then False else replicate 64 True ! i)"
    by (elim exE conjE)
  have b: "\<not> bm' ! 3" "\<not> bm' ! 4" "bm' ! 2" "bm' ! 5" using n by simp_all
  have "\<exists>ret d bm'.
         kvm_log_clear_one_slot (2 ^ 12) clear_accepted dirty_slot 0 0x3000 0x2000
           = Some (ret, dirty_slot\<lparr>dirty_bmap := Some bm'\<rparr>, d)
         \<and> length bm' = 64 \<and> \<not> bm' ! 3 \<and> \<not> bm' ! 4 \<and> bm' ! 2 \<and> bm' ! 5"
    using r l b by (intro exI [of _ ret] exI [of _ d] exI [of _ bm']) simp
  with h1 h2 h3 h4 h5 show ?thesis by (intro conjI)
qed

text \<open>
  The claim as stated names the range \<open>[start div pagesize, (start + size) div pagesize)\<close>.
  For the request \<open>(0x800, 0x800)\<close> on a slot with 4 KiB pages that range holds page 0; the
  call returns with the cached bitmap unchanged and bit 0 still set.
\<close>

theorem clear_unaligned_request_counterexample:
  "kvm_log_clear_one_slot 0x1000 clear_accepted dirty_slot 0 0x800 0x800
     = Some (0, dirty_slot,
             \<lparr>cl_slot = 0, cl_num_pages = 64, cl_first_page = 0,
              cl_dirty_bitmap = replicate 64 False\<rparr>)
   \<and> unat (0x800 :: u64) div unat (0x1000 :: u64) \<le> 0
   \<and> 0 < (unat (0x800 :: u64) + unat (0x800 :: u64)) div unat (0x1000 :: u64)
   \<and> dirty_bmap dirty_slot = Some (replicate 64 True)
   \<and> replicate 64 True ! 0"
  by (simp add: kvm_log_clear_one_slot_def dirty_slot_def clear_accepted_def
        KVM_CLEAR_LOG_MASK_def KVM_CLEAR_LOG_ALIGN_def KVM_CLEAR_LOG_SHIFT_def DIV_ROUND_UP_def
        bitmap_new_def bitmap_copy_with_src_offset_def bitmap_clear_none Let_def)

subsection \<open>C2: reaping the dirty ring twice\<close>

lemma mark_page_ring_size:
  "kvm_dirty_ring_mark_page psize s a b c = Some s' \<Longrightarrow> kvm_dirty_ring_size s' = kvm_dirty_ring_size s"
  by (auto simp: kvm_dirty_ring_mark_page_def Let_def split: if_splits option.splits)

lemma collected_flags: "gfn_flags (dirty_gfn_set_collected g) = KVM_DIRTY_GFN_F_RESET"
  by (simp add: dirty_gfn_set_collected_def)

lemma reset_not_dirtied: "gfn_flags g = KVM_DIRTY_GFN_F_RESET \<Longrightarrow> \<not> dirty_gfn_is_dirtied g"
  by (simp add: dirty_gfn_is_dirtied_def KVM_DIRTY_GFN_F_DIRTY_def KVM_DIRTY_GFN_F_RESET_def)

lemma reap_loop_result:
  "reap_loop psize rs s ring fetch cnt = Some (s', ring', fetch', cnt') \<Longrightarrow>
   \<exists>n. fetch' = fetch + of_nat n \<and> cnt' = cnt + of_nat n
     \<and> n + dirty_in_ring rs ring' = dirty_in_ring rs ring
     \<and> length ring' = length ring
     \<and> kvm_dirty_ring_size s' = kvm_dirty_ring_size s
     \<and> rs \<noteq> 0 \<and> unat fetch' mod unat rs < length ring'
     \<and> \<not> dirty_gfn_is_dirtied (ring' ! (unat fetch' mod unat rs))
     \<and> (\<forall>i. i < length ring \<longrightarrow> gfn_flags (ring ! i) = KVM_DIRTY_GFN_F_RESET
              \<longrightarrow> gfn_flags (ring' ! i) = KVM_DIRTY_GFN_F_RESET)
     \<and> (\<forall>k<n. gfn_flags (ring' ! (unat (fetch + of_nat k) mod unat rs)) = KVM_DIRTY_GFN_F_RESET)"
proof (induction psize rs s ring fetch cnt rule: reap_loop.induct)
  case (1 psize rs s ring fetch cnt)
  let ?i = "unat fetch mod unat rs"
  from "1.prems" have ok: "rs \<noteq> 0" "?i < length ring"
    by (subst (asm) reap_loop.simps, auto split: if_splits)+
  show ?case
  proof (cases "dirty_gfn_is_dirtied (ring ! ?i)")
    case False
    with "1.prems" ok have "s' = s" "ring' = ring" "fetch' = fetch" "cnt' = cnt"
      by (subst (asm) reap_loop.simps, simp)+
    with ok False show ?thesis by (intro exI [of _ 0]) simp
  next
    case True
    let ?ring1 = "ring[?i := dirty_gfn_set_collected (ring ! ?i)]"
    from "1.prems" ok True obtain s1 where
      mp: "kvm_dirty_ring_mark_page psize s (drop_bit 16 (gfn_slot (ring ! ?i)))
             (gfn_slot (ring ! ?i) AND 0xffff) (gfn_offset (ring ! ?i)) = Some s1"
      and rec: "reap_loop psize rs s1 ?ring1 (fetch + 1) (cnt + 1) = Some (s', ring', fetch', cnt')"
      by (subst (asm) reap_loop.simps) (auto split: option.splits)
    have nok: "\<not> (rs = 0 \<or> length ring \<le> ?i)" using ok by simp
    have nn: "\<not> \<not> dirty_gfn_is_dirtied (ring ! ?i)" using True by simp
    from "1.IH" [OF nok nn mp rec] obtain n where
      n: "fetch' = fetch + 1 + of_nat n" "cnt' = cnt + 1 + of_nat n"
         "n + dirty_in_ring rs ring' = dirty_in_ring rs ?ring1"
         "length ring' = length ?ring1"
         "kvm_dirty_ring_size s' = kvm_dirty_ring_size s1"
         "unat fetch' mod unat rs < length ring'"
         "\<not> dirty_gfn_is_dirtied (ring' ! (unat fetch' mod unat rs))"
         "\<forall>i. i < length ?ring1 \<longrightarrow> gfn_flags (?ring1 ! i) = KVM_DIRTY_GFN_F_RESET
              \<longrightarrow> gfn_flags (ring' ! i) = KVM_DIRTY_GFN_F_RESET"
         "\<forall>k<n. gfn_flags (ring' ! (unat (fetch + 1 + of_nat k) mod unat rs)) = KVM_DIRTY_GFN_F_RESET"
      by blast
    have j: "?i < unat rs" using ok(1) by (simp add: unat_gt_0)
    have d1: "Suc (dirty_in_ring rs ?ring1) = dirty_in_ring rs ring"
      by (rule dirty_in_ring_collect [OF ok(2) j True])
    have pres: "\<forall>i. i < length ring \<longrightarrow> gfn_flags (ring ! i) = KVM_DIRTY_GFN_F_RESET
              \<longrightarrow> gfn_flags (ring' ! i) = KVM_DIRTY_GFN_F_RESET"
    proof (intro allI impI)
      fix i assume i: "i < length ring" "gfn_flags (ring ! i) = KVM_DIRTY_GFN_F_RESET"
      have "gfn_flags (?ring1 ! i) = KVM_DIRTY_GFN_F_RESET"
        using i ok by (cases "i = ?i") (simp_all add: collected_flags)
      with n(8) i(1) show "gfn_flags (ring' ! i) = KVM_DIRTY_GFN_F_RESET" by simp
    qed
    have first: "gfn_flags (ring' ! ?i) = KVM_DIRTY_GFN_F_RESET"
      using n(8) ok by (simp add: collected_flags)
    have ks: "\<forall>k<Suc n. gfn_flags (ring' ! (unat (fetch + of_nat k) mod unat rs)) = KVM_DIRTY_GFN_F_RESET"
    proof (intro allI impI)
      fix k assume k: "k < Suc n"
      show "gfn_flags (ring' ! (unat (fetch + of_nat k) mod unat rs)) = KVM_DIRTY_GFN_F_RESET"
      proof (cases k)
        case 0
        then show ?thesis using first by simp
      next
        case (Suc k')
        with k have "k' < n" by simp
        with n(9) have "gfn_flags (ring' ! (unat (fetch + 1 + of_nat k') mod unat rs)) = KVM_DIRTY_GFN_F_RESET"
          by blast
        then show ?thesis using Suc by (simp add: add.assoc)
      qed
    qed
    show ?thesis
      apply (intro exI [of _ "Suc n"])
      using n d1 pres ks ok mark_page_ring_size [OF mp] by (simp add: add.assoc)
  qed
qed


lemma dirty_in_ring_le: "dirty_in_ring rs ring \<le> unat rs"
proof -
  have "dirty_in_ring rs ring \<le> length (take (unat rs) ring)"
    unfolding dirty_in_ring_def by (rule length_filter_le)
  then show ?thesis by simp
qed

text \<open>
  C2. If a call of \<^verbatim>\<open>kvm_dirty_ring_reap_one\<close> returns, then a second call on the
  resulting state, with no kernel write in between, returns the count 0 and changes
  nothing; the first call has advanced the fetch index by its count, and every entry it
  consumed, at the ring positions of the old fetch index and the following ones, has the
  flag word \<^verbatim>\<open>KVM_DIRTY_GFN_F_RESET\<close>.
\<close>

theorem kvm_dirty_ring_reap_one_idempotent:
  assumes "kvm_dirty_ring_reap_one psize s cpu = Some (s1, cpu1, n1)"
  shows "kvm_dirty_ring_reap_one psize s1 cpu1 = Some (s1, cpu1, 0)
       \<and> kvm_fetch_index cpu1 = kvm_fetch_index cpu + n1
       \<and> (\<exists>ring1. kvm_dirty_gfns cpu1 = Some ring1
             \<and> (\<forall>k < unat n1.
                   gfn_flags (ring1 ! (unat (kvm_fetch_index cpu + of_nat k)
                                        mod unat (kvm_dirty_ring_size s)))
                     = KVM_DIRTY_GFN_F_RESET))"
proof -
  let ?rs = "kvm_dirty_ring_size s"
  from assms obtain ring ring1 fetch1 where
    r: "kvm_dirty_gfns cpu = Some ring" "?rs \<noteq> 0"
       "reap_loop psize ?rs s ring (kvm_fetch_index cpu) 0 = Some (s1, ring1, fetch1, n1)"
       "cpu1 = cpu\<lparr>kvm_dirty_gfns := Some ring1, kvm_fetch_index := fetch1,
                     dirty_pages := dirty_pages cpu + ucast n1\<rparr>"
    by (auto simp: kvm_dirty_ring_reap_one_def split: option.splits if_splits)
  from reap_loop_result [OF r(3)] obtain n where
    n: "fetch1 = kvm_fetch_index cpu + of_nat n" "n1 = of_nat n"
       "n + dirty_in_ring ?rs ring1 = dirty_in_ring ?rs ring"
       "kvm_dirty_ring_size s1 = ?rs"
       "unat fetch1 mod unat ?rs < length ring1"
       "\<not> dirty_gfn_is_dirtied (ring1 ! (unat fetch1 mod unat ?rs))"
       "\<forall>k<n. gfn_flags (ring1 ! (unat (kvm_fetch_index cpu + of_nat k) mod unat ?rs))
                = KVM_DIRTY_GFN_F_RESET"
    by auto
  have "n \<le> unat ?rs" using n(3) dirty_in_ring_le [of ?rs ring] by linarith
  also have "unat ?rs < 2 ^ 32" using unsigned_less [of ?rs] by simp
  finally have "unat n1 = n" by (simp add: n(2) unat_of_nat)
  with n(7) have consumed: "\<forall>k < unat n1.
      gfn_flags (ring1 ! (unat (kvm_fetch_index cpu + of_nat k) mod unat ?rs)) = KVM_DIRTY_GFN_F_RESET"
    by simp
  have again: "reap_loop psize ?rs s1 ring1 fetch1 0 = Some (s1, ring1, fetch1, 0)"
    using r(2) n(5,6) by (subst reap_loop.simps) simp
  have second: "kvm_dirty_ring_reap_one psize s1 cpu1 = Some (s1, cpu1, 0)"
    using again r(2) by (simp add: kvm_dirty_ring_reap_one_def r(4) n(4))
  have fetch: "kvm_fetch_index cpu1 = kvm_fetch_index cpu + n1"
    by (simp add: r(4) n(1,2))
  have ring: "kvm_dirty_gfns cpu1 = Some ring1" by (simp add: r(4))
  show ?thesis
  proof (intro conjI exI [of _ ring1])
    show "kvm_dirty_ring_reap_one psize s1 cpu1 = Some (s1, cpu1, 0)" by (rule second)
    show "kvm_fetch_index cpu1 = kvm_fetch_index cpu + n1" by (rule fetch)
    show "kvm_dirty_gfns cpu1 = Some ring1" by (rule ring)
    show "\<forall>k < unat n1.
      gfn_flags (ring1 ! (unat (kvm_fetch_index cpu + of_nat k) mod unat ?rs)) = KVM_DIRTY_GFN_F_RESET"
      by (rule consumed)
  qed
qed


theorem kvm_dirty_ring_reap_one_idempotent_witness:
  "\<exists>s1 cpu1.
     kvm_dirty_ring_reap_one 0x1000 ring_state ring_cpu = Some (s1, cpu1, 2)
     \<and> kvm_dirty_ring_reap_one 0x1000 s1 cpu1 = Some (s1, cpu1, 0)
     \<and> kvm_fetch_index cpu1 = 2"
proof -
  have "\<exists>s1 cpu1. kvm_dirty_ring_reap_one 0x1000 ring_state ring_cpu = Some (s1, cpu1, 2)"
    by (simp add: kvm_dirty_ring_reap_one_def ring_state_def ring_cpu_def ring_slot_def
          reap_loop.simps kvm_dirty_ring_mark_page_def bitmap_set_bit_def dirty_gfn_is_dirtied_def
          dirty_gfn_set_collected_def KVM_DIRTY_GFN_F_DIRTY_def Let_def)
  then obtain s1 cpu1 where
    first: "kvm_dirty_ring_reap_one 0x1000 ring_state ring_cpu = Some (s1, cpu1, 2)"
    by (elim exE)
  have "kvm_fetch_index ring_cpu = 0" by (simp add: ring_cpu_def)
  with kvm_dirty_ring_reap_one_idempotent [OF first] first
  show ?thesis by (intro exI [of _ s1] exI [of _ cpu1]) simp
qed

subsection \<open>C6: GSI allocation and the route table\<close>

























































subsection \<open>C7: exit reason ``shutdown''\<close>




subsection \<open>C4: program slots are allocated from object 0\<close>

text \<open>
  C4 at a failing input. Two objects are loaded, in pool entries 0 and 1. A first link
  request on entry 1 returns program slot 0 and stores the program there. A second link
  request on entry 1 is again given slot 0, although slot 0 of that object is in use: the
  allocation has looked at the slots of entry 0, which are all free. The second request
  overwrites the handle stored by the first.
\<close>

theorem link_reuses_slot_in_use:
  "fst (link_hyperupcall friendly_env two_objects 1 0x5000 HYPERUPCALL_MAJORID_XDP 0) = 0
   \<and> prog_slot_in_use (hyperupcalls after_first_link ! 1) 0
   \<and> allocate_hyperupcall_prog_slot (hyperupcalls after_first_link)
         (hyperupcalls after_first_link ! 1) = 0
   \<and> fst (link_hyperupcall friendly_env after_first_link 1 0x5000
             HYPERUPCALL_MAJORID_PAGEFAULT 1) = 0
   \<and> links (hyperupcalls after_first_link ! 1) ! 0 = Some 1111
   \<and> links (hyperupcalls
               (snd (link_hyperupcall friendly_env after_first_link 1 0x5000
                       HYPERUPCALL_MAJORID_PAGEFAULT 1)) ! 1) ! 0 = Some 2111"
  by (simp add: after_first_link_def link_hyperupcall_def link_attach_def two_objects_def
        friendly_env_def loaded_hyperupcall_def empty_hyperupcall_def
        allocate_hyperupcall_prog_slot_def prog_slot_in_use_def
        MAX_NUM_HYPERUPCALL_OBJS_def HYPERUPCALL_N_PROGRAM_SLOTS_def
        HYPERUPCALL_MAJORID_XDP_def HYPERUPCALL_MAJORID_PAGEFAULT_def Let_def)

subsection \<open>C3: the export stops one slot short\<close>

text \<open>
  C3 at a failing input. One RAM region of 64 pages is registered in address space 0: it
  takes slot 0, the slot is active and the local arrays hold its page count, but
  \<^verbatim>\<open>used_memslots\<close>, the highest slot index seen, is 0. A link request for the page-fault
  hook with minor id 0 then succeeds and runs the export, which itself succeeds; the shared
  page-count array still holds its old contents at index 0: the loop
  \<^verbatim>\<open>for (i = 0; i < used_memslots; i++)\<close> has copied nothing.
\<close>

theorem export_leaves_out_highest_slot:
  "map_option (\<lambda>(kml, m). (memory_size (slots kml ! 0), as_id (slots kml ! 0),
                             memslot_npages_local m ! 0, used_memslots m)) one_region
     = Some (0x40000, 0, 0x40, 0)
   \<and> fst (export_memslots_hyperupcall registry_after_boot 100) = 0
   \<and> fst (link_hyperupcall friendly_env registry_after_boot 0 0x5000
             HYPERUPCALL_MAJORID_PAGEFAULT 0) = 0
   \<and> bpf_maps (snd (link_hyperupcall friendly_env registry_after_boot 0 0x5000
                       HYPERUPCALL_MAJORID_PAGEFAULT 0)) 100 ''l0_memslots_npages''
       = Some (replicate 512 0xdead)"
proof -
  have boot: "one_region =
      Some (\<lparr>slots = [(free_slot 0)\<lparr>as_id := 0, memory_size := 0x40000, start_addr := 0x100000,
                          ram_start_offset := 0, ram := 0x7f0000000000, flags := 0,
                          old_flags := 0\<rparr>, free_slot 1],
             kml_as_id = 0\<rparr>,
            empty_mirror\<lparr>memslot_as_id := (replicate 128 0)[0 := 0],
              memslot_npages_local := (replicate 128 0)[0 := 0x40],
              memslot_base_gfns_local := (replicate 128 0)[0 := 0x100],
              memslot_userptrs_local := (replicate 128 0)[0 := 0x7f0000000000],
              used_memslots := 0\<rparr>)"
    by (simp add: one_region_def kvm_set_phys_mem_add.simps boot_listener_def free_slot_def
          kvm_get_free_slot_def kvm_slot_init_dirty_bitmap_def mirror_slot_def
          kvm_set_user_memory_region_def set_region_finish_def region_accepted_def
          empty_mirror_def HYPERUPCALL_MAX_N_MEMSLOTS_def KVM_MEM_LOG_DIRTY_PAGES_def
          KVM_MEM_READONLY_def Let_def)
  have used: "used_memslots (mirror registry_after_boot) = 0"
    by (simp add: registry_after_boot_def boot)
  have maps: "bpf_maps registry_after_boot = export_arrays"
    by (simp add: registry_after_boot_def)
  have ex: "export_memslots_hyperupcall registry_after_boot 100 =
              (0, registry_after_boot\<lparr>bpf_maps := export_arrays(100 := (export_arrays 100)
                  (''l0_memslots_base_gfns'' := Some (replicate 512 0xdead),
                   ''l0_memslots_npages'' := Some (replicate 512 0xdead),
                   ''l0_memslots_userspace_addr'' := Some (replicate 512 0xdead)))\<rparr>)"
    by (simp add: export_memslots_hyperupcall_def used maps export_arrays_def Let_def)
  have pool: "obj (hyperupcalls registry_after_boot ! 0) = Some 100"
             "progs (hyperupcalls registry_after_boot ! 0)
                = [None, None, None, None, None, None, None, None]"
    by (simp_all add: registry_after_boot_def two_objects_def loaded_hyperupcall_def
          empty_hyperupcall_def)
  have link: "link_hyperupcall friendly_env registry_after_boot 0 0x5000
                HYPERUPCALL_MAJORID_PAGEFAULT 0
              = (0, (snd (export_memslots_hyperupcall registry_after_boot 100))
                     \<lparr>hyperupcalls := (hyperupcalls registry_after_boot)[0 :=
                        (hyperupcalls registry_after_boot ! 0)
                          \<lparr>links := (links (hyperupcalls registry_after_boot ! 0))[0 := Some 2110],
                           hooks := (hooks (hyperupcalls registry_after_boot ! 0))[0 :=
                              \<lparr>hook_sz = sizeof_tc_hook, hook_ifindex = 3,
                               hook_attach_point = Some BPF_TC_EGRESS\<rparr>],
                           progs := (progs (hyperupcalls registry_after_boot ! 0))[0 := Some 110],
                           major_ids := (major_ids (hyperupcalls registry_after_boot ! 0))[0 := 1],
                           minor_ids := (minor_ids (hyperupcalls registry_after_boot ! 0))[0 := 0]\<rparr>]\<rparr>)"
    by (simp add: link_hyperupcall_def link_attach_def pool friendly_env_def ex
          allocate_hyperupcall_prog_slot_def MAX_NUM_HYPERUPCALL_OBJS_def
          HYPERUPCALL_N_PROGRAM_SLOTS_def HYPERUPCALL_MAJORID_XDP_def
          HYPERUPCALL_MAJORID_PAGEFAULT_def Let_def)
  show ?thesis
    by (simp add: boot link ex free_slot_def empty_mirror_def export_arrays_def)
qed

subsection \<open>C10: unknown opcodes and the hotplug opcode return 0\<close>

text \<open>
  C10. For every opcode outside \<open>{13, \<dots>, 19, 23}\<close> the dispatcher returns 0, and for
  opcode 23 it returns 0 whatever the forwarded hotplug helper returned: both cases are the
  opcodes outside \<open>{13, \<dots>, 19}\<close>, and no choice of the helper (the field \<open>vdpa_op\<close> is
  arbitrary) changes the value handed back to the guest.
\<close>

theorem handle_hypercall_unknown_or_hotplug_zero:
  "nr \<notin> {13, 14, 15, 16, 17, 18, 19} \<Longrightarrow>
   fst (handle_hypercall ops nr a0 a1 a2 a3 s) = 0"
  by (simp add: handle_hypercall_def Let_def split: prod.splits)

theorem handle_hypercall_unknown_or_hotplug_zero_witness:
  "fst (handle_hypercall
          \<lparr>backend_bh_cleanup = id, mutex_lock = (\<lambda>_. 0), mutex_unlock = id,
           load_op = (\<lambda>_ _ s. (- 1, s)), unload_op = (\<lambda>_ s. (- 1, s)),
           link_op = (\<lambda>_ _ _ _ s. (- 1, s)), unlink_op = (\<lambda>_ _ s. (- 1, s)),
           map_op = (\<lambda>_ _ s. (- 1, s)), unmap_op = (\<lambda>_ _ s. (- 1, s)),
           vdpa_op = (\<lambda>_ _ s. (- 1, Suc s))\<rparr> 23 1 0 0 0 (0::nat)) = 0
   \<and> fst (handle_hypercall
          \<lparr>backend_bh_cleanup = id, mutex_lock = (\<lambda>_. 0), mutex_unlock = id,
           load_op = (\<lambda>_ _ s. (- 1, s)), unload_op = (\<lambda>_ s. (- 1, s)),
           link_op = (\<lambda>_ _ _ _ s. (- 1, s)), unlink_op = (\<lambda>_ _ s. (- 1, s)),
           map_op = (\<lambda>_ _ s. (- 1, s)), unmap_op = (\<lambda>_ _ s. (- 1, s)),
           vdpa_op = (\<lambda>_ _ s. (- 1, Suc s))\<rparr> 99 0 0 0 0 (0::nat)) = 0"
proof -
  have a: "(23 :: u64) \<notin> {13, 14, 15, 16, 17, 18, 19}" by simp
  have b: "(99 :: u64) \<notin> {13, 14, 15, 16, 17, 18, 19}" by simp
  show ?thesis
    by (rule conjI [OF handle_hypercall_unknown_or_hotplug_zero [OF a]
                       handle_hypercall_unknown_or_hotplug_zero [OF b]])
qed

end
